theory Spec2Isabelle
  imports Main
begin

section \<open>Errors\<close>

text \<open>
  Every \<^verbatim>\<open>raise\<close>, failed \<^verbatim>\<open>assert\<close> and out-of-range subscript of
  \<^verbatim>\<open>torch/distributed/_tensor/_redistribute.py\<close> is a value of this type; a function
  that can fail returns \<open>error + 'a\<close>, with \<open>Inl\<close> the exception.
\<close>

datatype error =
    AssertionError
  | IndexError
  | RuntimeError
  | NotImplementedError
  | ZeroDivisionError

section \<open>Placements, device mesh and spec\<close>

text \<open>
  Modelled from the spec: \<^verbatim>\<open>placement_types.Placement\<close> and its three subclasses are
  imported by the planner but not part of the sources. The spec gives a tagged variant
  \<^verbatim>\<open>Replicate | Shard(dim) | Partial(op)\<close> with structural equality and the
  predicates \<^verbatim>\<open>is_replicate\<close>, \<^verbatim>\<open>is_shard\<close>, \<^verbatim>\<open>is_shard_of(dim)\<close>,
  \<^verbatim>\<open>is_partial\<close>.
\<close>

type_synonym reduce_op = string

datatype placement = Replicate | Shard nat | Partial reduce_op

fun is_replicate :: "placement \<Rightarrow> bool" where
  "is_replicate Replicate = True"
| "is_replicate _ = False"

fun is_shard :: "placement \<Rightarrow> bool" where
  "is_shard (Shard _) = True"
| "is_shard _ = False"

text \<open>\<^verbatim>\<open>p.is_shard(dim)\<close> with an explicit tensor dimension.\<close>

fun is_shard_of :: "nat \<Rightarrow> placement \<Rightarrow> bool" where
  "is_shard_of d (Shard d') = (d' = d)"
| "is_shard_of d _ = False"

fun is_partial :: "placement \<Rightarrow> bool" where
  "is_partial (Partial _) = True"
| "is_partial _ = False"

text \<open>
  Modelled from the spec: \<^verbatim>\<open>Shard._local_shard_size_on_dim\<close> is not part of the sources.
  The spec gives \<^verbatim>\<open>base = logical_size / mesh_size; rem = logical_size mod mesh_size;
  local = base + (1 if coord < rem else 0); pad = (base + (1 if rem>0 else 0)) - local\<close>.
  Division by a mesh size of zero is the error it is in the program.
\<close>

definition local_shard_size_on_dim :: "nat \<Rightarrow> nat \<Rightarrow> nat \<Rightarrow> error + (nat \<times> nat)" where
  "local_shard_size_on_dim logical_size mesh_sz coord =
     (if mesh_sz = 0 then Inl ZeroDivisionError
      else
        let base = logical_size div mesh_sz;
            rem = logical_size mod mesh_sz;
            local = base + (if coord < rem then 1 else 0);
            pad = (base + (if rem > 0 then 1 else 0)) - local
        in Inr (local, pad))"

text \<open>
  Modelled from the spec: \<^verbatim>\<open>DeviceMesh\<close> is not part of the sources. The spec gives an
  immutable grid of workers with \<^verbatim>\<open>ndim\<close>, \<^verbatim>\<open>size(mesh_dim)\<close> and the worker's own
  coordinate, which is \<^verbatim>\<open>None\<close> when the worker is not a member. \<open>mesh_ranks\<close> is the
  grid of worker ids, flattened; two meshes are equal when all three fields are.
\<close>

record device_mesh =
  mesh_shape :: "nat list"
  mesh_ranks :: "nat list"
  coordinate :: "nat list option"

definition ndim :: "device_mesh \<Rightarrow> int" where
  "ndim m = int (length (mesh_shape m))"

definition get_coordinate :: "device_mesh \<Rightarrow> nat list option" where
  "get_coordinate m = coordinate m"

definition mesh_size :: "device_mesh \<Rightarrow> nat \<Rightarrow> error + nat" where
  "mesh_size m i =
     (if i < length (mesh_shape m) then Inr (mesh_shape m ! i) else Inl IndexError)"

text \<open>
  Modelled from the spec: \<^verbatim>\<open>TensorMeta\<close> and \<^verbatim>\<open>DTensorSpec\<close> are not part of the
  sources. The spec gives \<^verbatim>\<open>{ mesh, placements, meta: (global_shape, stride, dtype) }\<close>
  and \<^verbatim>\<open>num_shards = product of mesh.size(i) for all i where placements[i].is_shard()\<close>.
\<close>

record tensor_meta =
  tm_shape :: "nat list"
  tm_stride :: "nat list"
  tm_dtype :: string

record dtensor_spec =
  mesh :: device_mesh
  placements :: "placement list"
  meta :: tensor_meta

definition shape :: "dtensor_spec \<Rightarrow> nat list" where
  "shape s = tm_shape (meta s)"

fun num_shards_loop :: "device_mesh \<Rightarrow> nat \<Rightarrow> placement list \<Rightarrow> nat \<Rightarrow> error + nat" where
  "num_shards_loop m i [] acc = Inr acc"
| "num_shards_loop m i (p # ps) acc =
     (if is_shard p then
        (case mesh_size m i of
           Inl e \<Rightarrow> Inl e
         | Inr n \<Rightarrow> num_shards_loop m (Suc i) ps (acc * n))
      else num_shards_loop m (Suc i) ps acc)"

definition num_shards :: "dtensor_spec \<Rightarrow> error + nat" where
  "num_shards s = num_shards_loop (mesh s) 0 (placements s) 1"

section \<open>The transform planner\<close>

text \<open>\<^verbatim>\<open>class _TransformInfo(NamedTuple)\<close>.\<close>

record transform_info =
  mesh_dim :: nat
  src_dst_placements :: "placement \<times> placement"
  logical_shape :: "nat list"

subsection \<open>\<^verbatim>\<open>reshardable_from_src_to_dst\<close>\<close>

text \<open>
  The first loop of \<^verbatim>\<open>reshardable_from_src_to_dst\<close>:
  \<^verbatim>\<open>for i in reversed(range(len(current_placements)))\<close>, started with
  \<open>n = len(current_placements)\<close>. The result is \<open>False\<close> when the loop leaves the
  function through \<^verbatim>\<open>return False\<close>, and \<open>True\<close> when it ends by \<^verbatim>\<open>break\<close> or by
  exhausting the range.
\<close>

fun innermost_scan :: "placement list \<Rightarrow> nat \<Rightarrow> nat \<Rightarrow> nat \<Rightarrow> bool" where
  "innermost_scan current_placements d md 0 = True"
| "innermost_scan current_placements d md (Suc i) =
     (if is_shard_of d (current_placements ! i) then i = md
      else innermost_scan current_placements d md i)"

text \<open>
  The second loop:
  \<^verbatim>\<open>for i, (s, p) in enumerate(zip(current_placements, target_placements))\<close>, which
  breaks at \<open>i >= mesh_dim\<close> and appends \<open>i\<close> to either list.
\<close>

fun mesh_sharding_loop ::
  "nat \<Rightarrow> nat \<Rightarrow> nat \<Rightarrow> (placement \<times> placement) list \<Rightarrow> nat list \<times> nat list
     \<Rightarrow> nat list \<times> nat list" where
  "mesh_sharding_loop md shard_dim i [] acc = acc"
| "mesh_sharding_loop md shard_dim i ((s, p) # rest) (cms, tms) =
     (if i \<ge> md then (cms, tms)
      else mesh_sharding_loop md shard_dim (Suc i) rest
             (if is_shard_of shard_dim s then cms @ [i] else cms,
              if is_shard_of shard_dim p then tms @ [i] else tms))"

definition reshardable_from_src_to_dst ::
  "placement list \<Rightarrow> placement list \<Rightarrow> nat \<Rightarrow> error + bool" where
  "reshardable_from_src_to_dst current_placements target_placements md =
     (if md \<ge> length current_placements \<or> md \<ge> length target_placements
      then Inl IndexError
      else
        let current = current_placements ! md;
            target = target_placements ! md
        in
          if (case current of
                Shard d \<Rightarrow>
                  \<not> innermost_scan current_placements d md (length current_placements)
              | _ \<Rightarrow> False)
          then Inr False
          else
            (case target of
               Shard shard_dim \<Rightarrow>
                 (let (current_mesh_sharding, target_mesh_sharding) =
                        mesh_sharding_loop md shard_dim 0
                          (zip current_placements target_placements) ([], [])
                  in Inr (current_mesh_sharding = target_mesh_sharding))
             | _ \<Rightarrow> Inr True))"

subsection \<open>\<^verbatim>\<open>search_transform_infos\<close>\<close>

text \<open>
  The source mutates \<^verbatim>\<open>src_placements\<close> and appends to \<^verbatim>\<open>transform_infos\<close>; the
  model takes both and returns them updated. \<^verbatim>\<open>current_mesh_idx\<close> is a Python
  integer that the inner-to-outer pass drives down to \<open>-1\<close>, so it is an \<open>int\<close>
  here; inside the range check it is a valid list index and \<open>nat\<close> reads it.
\<close>

function search_transform_infos ::
  "placement list \<Rightarrow> placement list \<Rightarrow> int \<Rightarrow> int \<Rightarrow> nat list list
     \<Rightarrow> transform_info list \<Rightarrow> bool
     \<Rightarrow> error + (placement list \<times> transform_info list)" where
  "search_transform_infos src_placements dst_placements current_mesh_idx mesh_ndim
       mesh_dims_to_logical_shape transform_infos left_to_right =
     (if src_placements = dst_placements then Inr (src_placements, transform_infos)
      else if current_mesh_idx < 0 \<or> current_mesh_idx \<ge> mesh_ndim
      then Inr (src_placements, transform_infos)
      else
        let k = nat current_mesh_idx in
        if k \<ge> length src_placements \<or> k \<ge> length dst_placements then Inl IndexError
        else
          let src = src_placements ! k;
              dst = dst_placements ! k
          in
            (case reshardable_from_src_to_dst src_placements dst_placements k of
               Inl e \<Rightarrow> Inl e
             | Inr True \<Rightarrow>
                 if src \<noteq> dst then
                   (if k \<ge> length mesh_dims_to_logical_shape then Inl IndexError
                    else
                      search_transform_infos (src_placements[k := dst]) dst_placements
                        (if left_to_right then current_mesh_idx + 1 else current_mesh_idx - 1)
                        mesh_ndim mesh_dims_to_logical_shape
                        (transform_infos @
                           [\<lparr>mesh_dim = k, src_dst_placements = (src, dst),
                             logical_shape = mesh_dims_to_logical_shape ! k\<rparr>])
                        left_to_right)
                 else
                   search_transform_infos src_placements dst_placements
                     (if left_to_right then current_mesh_idx + 1 else current_mesh_idx - 1)
                     mesh_ndim mesh_dims_to_logical_shape transform_infos left_to_right
             | Inr False \<Rightarrow>
                 if \<not> left_to_right then
                   (if k \<ge> length mesh_dims_to_logical_shape then Inl IndexError
                    else
                      search_transform_infos (src_placements[k := Replicate]) dst_placements
                        (current_mesh_idx - 1) mesh_ndim mesh_dims_to_logical_shape
                        (transform_infos @
                           [\<lparr>mesh_dim = k, src_dst_placements = (src, Replicate),
                             logical_shape = mesh_dims_to_logical_shape ! k\<rparr>])
                        left_to_right)
                 else Inl RuntimeError))"
  by pat_completeness auto
termination
  by (relation "measure (\<lambda>(s, d, idx, n, shapes, infos, ltr).
                   if ltr then nat (n - idx) else nat (idx + 1))") auto

subsection \<open>\<^verbatim>\<open>_gen_transform_infos\<close>\<close>

text \<open>
  The loop \<^verbatim>\<open>for i, (src, dst) in enumerate(zip(src_placements, dst_placements))\<close>
  that builds \<^verbatim>\<open>mesh_dims_to_logical_shape\<close>.
\<close>

fun logical_shape_loop ::
  "device_mesh \<Rightarrow> nat list \<Rightarrow> nat \<Rightarrow> (placement \<times> placement) list \<Rightarrow> nat list list
     \<Rightarrow> error + nat list list" where
  "logical_shape_loop device_mesh my_coordinate i [] mesh_dims_to_logical_shape =
     Inr mesh_dims_to_logical_shape"
| "logical_shape_loop device_mesh my_coordinate i ((src, dst) # rest)
       mesh_dims_to_logical_shape =
     (if i \<ge> length mesh_dims_to_logical_shape then Inl IndexError
      else
        let current_logical_shape = mesh_dims_to_logical_shape ! i in
        (case src of
           Shard d \<Rightarrow>
             if int i < ndim device_mesh - 1 then
               (case mesh_size device_mesh i of
                  Inl e \<Rightarrow> Inl e
                | Inr mesh_dim_size \<Rightarrow>
                    if d \<ge> length current_logical_shape then Inl IndexError
                    else if i \<ge> length my_coordinate then Inl IndexError
                    else
                      (case local_shard_size_on_dim (current_logical_shape ! d)
                              mesh_dim_size (my_coordinate ! i) of
                         Inl e \<Rightarrow> Inl e
                       | Inr (local_shard_size, _) \<Rightarrow>
                           logical_shape_loop device_mesh my_coordinate (Suc i) rest
                             (mesh_dims_to_logical_shape @
                                [current_logical_shape[d := local_shard_size]])))
             else
               logical_shape_loop device_mesh my_coordinate (Suc i) rest
                 mesh_dims_to_logical_shape
         | _ \<Rightarrow>
             logical_shape_loop device_mesh my_coordinate (Suc i) rest
               (mesh_dims_to_logical_shape @ [current_logical_shape])))"

definition gen_transform_infos ::
  "dtensor_spec \<Rightarrow> dtensor_spec \<Rightarrow> error + transform_info list" where
  "gen_transform_infos src_spec dst_spec =
     (let device_mesh = mesh src_spec in
      case get_coordinate device_mesh of
        None \<Rightarrow> Inl AssertionError
      | Some my_coordinate \<Rightarrow>
          let initial_logical_shape = shape src_spec in
          if ndim device_mesh = 1 then
            (case (placements src_spec, placements dst_spec) of
               (s # _, d # _) \<Rightarrow>
                 Inr [\<lparr>mesh_dim = 0, src_dst_placements = (s, d),
                       logical_shape = initial_logical_shape\<rparr>]
             | _ \<Rightarrow> Inl IndexError)
          else
            let src_placements = placements src_spec;
                dst_placements = placements dst_spec
            in
              (case logical_shape_loop device_mesh my_coordinate 0
                      (zip src_placements dst_placements) [initial_logical_shape] of
                 Inl e \<Rightarrow> Inl e
               | Inr mesh_dims_to_logical_shape \<Rightarrow>
                   (case num_shards src_spec of
                      Inl e \<Rightarrow> Inl e
                    | Inr n \<Rightarrow>
                        (case (if n > 1 then
                                 search_transform_infos src_placements dst_placements
                                   (ndim device_mesh - 1) (ndim device_mesh)
                                   mesh_dims_to_logical_shape [] False
                               else Inr (src_placements, [])) of
                           Inl e \<Rightarrow> Inl e
                         | Inr (src_placements', transform_infos) \<Rightarrow>
                             (case search_transform_infos src_placements' dst_placements
                                     0 (ndim device_mesh) mesh_dims_to_logical_shape
                                     transform_infos True of
                                Inl e \<Rightarrow> Inl e
                              | Inr (_, transform_infos') \<Rightarrow> Inr transform_infos')))))"


section \<open>The transform executor\<close>

text \<open>
  The methods of \<^verbatim>\<open>Shard\<close> and \<^verbatim>\<open>Partial\<close> that move data, and
  \<^verbatim>\<open>funcol.AsyncCollectiveTensor\<close>, are not part of the sources: the executor only
  chooses which one to call and with which arguments. They are parameters of the model,
  a record of functions over an arbitrary tensor type \<open>'t\<close>, each taking the receiver's
  own field first (the reduce op of a \<^verbatim>\<open>Partial\<close>, the tensor dim of a \<^verbatim>\<open>Shard\<close>)
  and then the arguments in the source's order.
\<close>

record 't placement_ops =
  reduce_value :: "reduce_op \<Rightarrow> 't \<Rightarrow> device_mesh \<Rightarrow> nat \<Rightarrow> 't"
  reduce_shard_value :: "reduce_op \<Rightarrow> 't \<Rightarrow> device_mesh \<Rightarrow> nat \<Rightarrow> placement \<Rightarrow> 't"
  to_replicate_tensor :: "nat \<Rightarrow> 't \<Rightarrow> device_mesh \<Rightarrow> nat \<Rightarrow> nat list \<Rightarrow> 't"
  replicate_to_shard :: "nat \<Rightarrow> 't \<Rightarrow> device_mesh \<Rightarrow> nat \<Rightarrow> nat \<Rightarrow> 't"
  to_new_shard_dim :: "nat \<Rightarrow> 't \<Rightarrow> device_mesh \<Rightarrow> nat \<Rightarrow> nat list \<Rightarrow> nat \<Rightarrow> 't"
  partition_value :: "reduce_op \<Rightarrow> 't \<Rightarrow> device_mesh \<Rightarrow> nat \<Rightarrow> 't"
  is_async_collective_tensor :: "'t \<Rightarrow> bool"
  wait :: "'t \<Rightarrow> 't"

text \<open>
  The executor's effect on the outside is the sequence of these method calls; each entry
  of the log names the method and the mesh dim it was called on. By the spec,
  \<^verbatim>\<open>_reduce_value\<close> is an all-reduce, \<^verbatim>\<open>_reduce_shard_value\<close> a reduce-scatter,
  \<^verbatim>\<open>_to_replicate_tensor\<close> an all-gather and \<^verbatim>\<open>_to_new_shard_dim\<close> an all-to-all,
  while \<^verbatim>\<open>_replicate_to_shard\<close> and \<^verbatim>\<open>_partition_value\<close> are local.
\<close>

datatype call =
    ReduceValue nat
  | ReduceShardValue nat
  | ToReplicateTensor nat
  | ReplicateToShard nat
  | ToNewShardDim nat
  | PartitionValue nat

fun is_collective :: "call \<Rightarrow> bool" where
  "is_collective (ReplicateToShard _) = False"
| "is_collective (PartitionValue _) = False"
| "is_collective _ = True"

text \<open>
  The variables the loop of \<^verbatim>\<open>redistribute_local_tensor\<close> updates:
  \<^verbatim>\<open>local_tensor\<close>, \<^verbatim>\<open>new_local_tensor\<close> (initially \<^verbatim>\<open>None\<close>), and the call log.
\<close>

record 't exec_state =
  local_tensor :: 't
  new_local_tensor :: "'t option"
  calls :: "call list"

text \<open>
  The \<^verbatim>\<open>if target.is_replicate() ... elif target.is_shard() ... elif target.is_partial()\<close>
  chain of the loop body, reached when \<open>current \<noteq> target\<close>: the new value of
  \<^verbatim>\<open>new_local_tensor\<close> and the calls made. In the branch \<^verbatim>\<open>Shard \<rightarrow> Shard\<close> with equal
  tensor dims the source assigns nothing, so the old value stays.
\<close>

definition transition ::
  "'t placement_ops \<Rightarrow> device_mesh \<Rightarrow> nat list \<Rightarrow> bool \<Rightarrow> 't exec_state \<Rightarrow> nat
     \<Rightarrow> placement \<Rightarrow> placement \<Rightarrow> nat list \<Rightarrow> error + ('t option \<times> call list)" where
  "transition ops device_mesh my_coordinate is_backward st i current target logical =
     (case target of
        Replicate \<Rightarrow>
          (case current of
             Partial op \<Rightarrow>
               Inr (Some (reduce_value ops op (local_tensor st) device_mesh i), [ReduceValue i])
           | Shard d \<Rightarrow>
               Inr (Some (to_replicate_tensor ops d (local_tensor st) device_mesh i logical),
                    [ToReplicateTensor i])
           | Replicate \<Rightarrow> Inl RuntimeError)
      | Shard target_dim \<Rightarrow>
          (case current of
             Partial op \<Rightarrow>
               Inr (Some (reduce_shard_value ops op (local_tensor st) device_mesh i target),
                    [ReduceShardValue i])
           | Replicate \<Rightarrow>
               if i \<ge> length my_coordinate then Inl IndexError
               else
                 Inr (Some (replicate_to_shard ops target_dim (local_tensor st) device_mesh i
                              (my_coordinate ! i)),
                      [ReplicateToShard i])
           | Shard d \<Rightarrow>
               if d \<noteq> target_dim then
                 Inr (Some (to_new_shard_dim ops d (local_tensor st) device_mesh i logical
                              target_dim),
                      [ToNewShardDim i])
               else Inr (new_local_tensor st, []))
      | Partial op \<Rightarrow>
          (case current of
             Replicate \<Rightarrow>
               if \<not> is_backward then
                 Inr (Some (partition_value ops op (local_tensor st) device_mesh i),
                      [PartitionValue i])
               else Inr (Some (local_tensor st), [])
           | Shard d \<Rightarrow>
               if \<not> is_backward then Inl RuntimeError
               else
                 Inr (Some (to_replicate_tensor ops d (local_tensor st) device_mesh i logical),
                      [ToReplicateTensor i])
           | Partial _ \<Rightarrow> Inr (Some (local_tensor st), [])))"

text \<open>One iteration of \<^verbatim>\<open>for transform_info in transform_infos\<close>.\<close>

definition redistribute_step ::
  "'t placement_ops \<Rightarrow> device_mesh \<Rightarrow> nat list \<Rightarrow> bool \<Rightarrow> 't exec_state \<Rightarrow> transform_info
     \<Rightarrow> error + 't exec_state" where
  "redistribute_step ops device_mesh my_coordinate is_backward st transform_info =
     (let i = mesh_dim transform_info;
          (current, target) = src_dst_placements transform_info
      in
        case mesh_size device_mesh i of
          Inl e \<Rightarrow> Inl e
        | Inr num_chunks \<Rightarrow>
            if current = target then Inr (st\<lparr>new_local_tensor := Some (local_tensor st)\<rparr>)
            else
              (case transition ops device_mesh my_coordinate is_backward st i current target
                      (logical_shape transform_info) of
                 Inl e \<Rightarrow> Inl e
               | Inr (None, cs) \<Rightarrow> Inl AssertionError
               | Inr (Some t, cs) \<Rightarrow>
                   Inr \<lparr>local_tensor = t, new_local_tensor = Some t,
                        calls = calls st @ cs\<rparr>))"

fun redistribute_loop ::
  "'t placement_ops \<Rightarrow> device_mesh \<Rightarrow> nat list \<Rightarrow> bool \<Rightarrow> 't exec_state
     \<Rightarrow> transform_info list \<Rightarrow> error + 't exec_state" where
  "redistribute_loop ops device_mesh my_coordinate is_backward st [] = Inr st"
| "redistribute_loop ops device_mesh my_coordinate is_backward st (transform_info # rest) =
     (case redistribute_step ops device_mesh my_coordinate is_backward st transform_info of
        Inl e \<Rightarrow> Inl e
      | Inr st' \<Rightarrow> redistribute_loop ops device_mesh my_coordinate is_backward st' rest)"

text \<open>
  What a call of \<^verbatim>\<open>redistribute_local_tensor\<close> returns and does: the tensor returned,
  the transform infos the loop walked (none when the planner was not called), and the
  calls made.
\<close>

record 't redistributed =
  out_tensor :: 't
  walked :: "transform_info list"
  out_calls :: "call list"

definition redistribute_local_tensor ::
  "'t placement_ops \<Rightarrow> 't \<Rightarrow> dtensor_spec \<Rightarrow> dtensor_spec \<Rightarrow> bool \<Rightarrow> bool
     \<Rightarrow> error + 't redistributed" where
  "redistribute_local_tensor ops tensor current_spec target_spec async_op is_backward =
     (if mesh current_spec \<noteq> mesh target_spec then Inl NotImplementedError
      else
        let device_mesh = mesh current_spec in
        case get_coordinate device_mesh of
          None \<Rightarrow> Inr \<lparr>out_tensor = tensor, walked = [], out_calls = []\<rparr>
        | Some my_coordinate \<Rightarrow>
            (case gen_transform_infos current_spec target_spec of
               Inl e \<Rightarrow> Inl e
             | Inr transform_infos \<Rightarrow>
                 (case redistribute_loop ops device_mesh my_coordinate is_backward
                         \<lparr>local_tensor = tensor, new_local_tensor = None, calls = []\<rparr>
                         transform_infos of
                    Inl e \<Rightarrow> Inl e
                  | Inr st \<Rightarrow>
                      (case new_local_tensor st of
                         None \<Rightarrow> Inl AssertionError
                       | Some t \<Rightarrow>
                           Inr \<lparr>out_tensor =
                                  (if \<not> async_op \<and> is_async_collective_tensor ops t
                                   then wait ops t else t),
                                walked = transform_infos,
                                out_calls = calls st\<rparr>))))"

section \<open>The redistribute operator\<close>

text \<open>
  Modelled from the spec: \<^verbatim>\<open>dtensor.DTensor\<close> is not part of the sources; the operator
  reads and builds it as a local tensor, a spec and the \<^verbatim>\<open>requires_grad\<close> flag, and
  its \<^verbatim>\<open>shape\<close>, \<^verbatim>\<open>stride()\<close> and \<^verbatim>\<open>dtype\<close> are those of its spec's metadata.
  \<open>ctx\<close> holds what \<^verbatim>\<open>forward\<close> saves for \<^verbatim>\<open>backward\<close>.
\<close>

record 't dtensor =
  dt_local_tensor :: 't
  dt_spec :: dtensor_spec
  requires_grad :: bool

record ctx =
  ctx_current_spec :: dtensor_spec
  ctx_async_op :: bool

definition Redistribute_forward ::
  "'t placement_ops \<Rightarrow> 't dtensor \<Rightarrow> device_mesh \<Rightarrow> placement list \<Rightarrow> bool
     \<Rightarrow> error + (ctx \<times> 't dtensor \<times> call list)" where
  "Redistribute_forward ops input device_mesh pls async_op =
     (let current_spec = dt_spec input;
          c = \<lparr>ctx_current_spec = current_spec, ctx_async_op = async_op\<rparr>
      in
        if placements current_spec \<noteq> pls then
          (let target_spec = \<lparr>mesh = device_mesh, placements = pls, meta = meta (dt_spec input)\<rparr>
           in
             case redistribute_local_tensor ops (dt_local_tensor input) current_spec target_spec
                    async_op False of
               Inl e \<Rightarrow> Inl e
             | Inr r \<Rightarrow>
                 Inr (c,
                      \<lparr>dt_local_tensor = out_tensor r, dt_spec = target_spec,
                       requires_grad = requires_grad input\<rparr>,
                      out_calls r))
        else
          Inr (c,
               \<lparr>dt_local_tensor = dt_local_tensor input, dt_spec = current_spec,
                requires_grad = requires_grad input\<rparr>,
               []))"

text \<open>
  \<^verbatim>\<open>backward\<close> returns \<^verbatim>\<open>(output_dtensor, None, None, None)\<close>; the model returns the
  first component and the calls made.
\<close>

definition Redistribute_backward ::
  "'t placement_ops \<Rightarrow> ctx \<Rightarrow> 't dtensor \<Rightarrow> error + ('t dtensor \<times> call list)" where
  "Redistribute_backward ops c grad_output =
     (let previous_spec = ctx_current_spec c;
          current_spec = dt_spec grad_output;
          async_op = ctx_async_op c
      in
        case redistribute_local_tensor ops (dt_local_tensor grad_output) current_spec
               previous_spec async_op True of
          Inl e \<Rightarrow> Inl e
        | Inr r \<Rightarrow>
            (let normalized_placements =
                   map (\<lambda>previous_placement.
                          if is_partial previous_placement then Replicate
                          else previous_placement)
                     (placements previous_spec);
                 spec = \<lparr>mesh = mesh previous_spec, placements = normalized_placements,
                         meta = \<lparr>tm_shape = tm_shape (meta (dt_spec grad_output)),
                                 tm_stride = tm_stride (meta (dt_spec grad_output)),
                                 tm_dtype = tm_dtype (meta (dt_spec grad_output))\<rparr>\<rparr>
             in
               Inr (\<lparr>dt_local_tensor = out_tensor r, dt_spec = spec,
                     requires_grad = requires_grad grad_output\<rparr>,
                    out_calls r)))"

section \<open>Notions used in the statements\<close>

text \<open>
  The \<^verbatim>\<open>(mesh_dim, from, to)\<close> part of a transform info, without the logical shape.
\<close>

definition step_triple :: "transform_info \<Rightarrow> nat \<times> placement \<times> placement" where
  "step_triple t = (mesh_dim t, fst (src_dst_placements t), snd (src_dst_placements t))"

text \<open>
  Reading a transform info as a transition on a placement list: the placement at
  \<open>mesh_dim\<close>, which must be the step's \<open>from\<close>, becomes its \<open>to\<close>. A step whose
  \<open>from\<close> is not the current placement there, or whose \<open>mesh_dim\<close> is out of range,
  does not apply (\<open>None\<close>).
\<close>

definition apply_step :: "placement list \<Rightarrow> transform_info \<Rightarrow> placement list option" where
  "apply_step cur t =
     (if mesh_dim t < length cur \<and> cur ! mesh_dim t = fst (src_dst_placements t)
      then Some (cur[mesh_dim t := snd (src_dst_placements t)])
      else None)"

fun apply_steps :: "placement list \<Rightarrow> transform_info list \<Rightarrow> placement list option" where
  "apply_steps cur [] = Some cur"
| "apply_steps cur (t # ts) =
     (case apply_step cur t of None \<Rightarrow> None | Some cur' \<Rightarrow> apply_steps cur' ts)"

text \<open>
  The quantity that decreases along the recursion of \<open>search_transform_infos\<close>, the mesh
  index of the recursive call, and the transform info a visit appends.
\<close>

definition search_measure :: "bool \<Rightarrow> int \<Rightarrow> int \<Rightarrow> nat" where
  "search_measure ltr n idx = (if ltr then nat (n - idx) else nat (idx + 1))"

definition next_idx :: "bool \<Rightarrow> int \<Rightarrow> int" where
  "next_idx ltr idx = (if ltr then idx + 1 else idx - 1)"

definition emitted :: "nat \<Rightarrow> placement \<Rightarrow> placement \<Rightarrow> nat list list \<Rightarrow> transform_info" where
  "emitted k p q shapes =
     \<lparr>mesh_dim = k, src_dst_placements = (p, q), logical_shape = shapes ! k\<rparr>"

text \<open>
  Concrete inputs on which the theorems below are instantiated: a worker at coordinate
  \<open>(0, 1)\<close> of a \<open>2 \<times> 2\<close> mesh, and a spec on that mesh for a tensor of global shape
  \<open>(4, 4)\<close>.
\<close>

definition mesh_2x2 :: device_mesh where
  "mesh_2x2 = \<lparr>mesh_shape = [2, 2], mesh_ranks = [0, 1, 2, 3], coordinate = Some [0, 1]\<rparr>"

definition spec_2x2 :: "placement list \<Rightarrow> dtensor_spec" where
  "spec_2x2 ps =
     \<lparr>mesh = mesh_2x2, placements = ps,
      meta = \<lparr>tm_shape = [4, 4], tm_stride = [4, 1], tm_dtype = ''float32''\<rparr>\<rparr>"

text \<open>
  The same spec as seen by the worker at coordinate \<open>c\<close>, a plan reduced to its
  \<open>(mesh_dim, from, to)\<close> triples, and the same reduction on what
  \<open>search_transform_infos\<close> returns.
\<close>

definition with_coordinate :: "nat list \<Rightarrow> dtensor_spec \<Rightarrow> dtensor_spec" where
  "with_coordinate c s = s\<lparr>mesh := (mesh s)\<lparr>coordinate := Some c\<rparr>\<rparr>"

definition plan_triples ::
  "error + transform_info list \<Rightarrow> error + (nat \<times> placement \<times> placement) list" where
  "plan_triples r = map_sum id (map step_triple) r"

definition search_triples ::
  "error + (placement list \<times> transform_info list)
     \<Rightarrow> error + (placement list \<times> (nat \<times> placement \<times> placement) list)" where
  "search_triples r = map_sum id (map_prod id (map step_triple)) r"

text \<open>A spec on the same mesh for a tensor of global shape \<open>(5, 4)\<close>, unevenly sharded.\<close>

definition spec_5x4 :: "placement list \<Rightarrow> dtensor_spec" where
  "spec_5x4 ps =
     \<lparr>mesh = mesh_2x2, placements = ps,
      meta = \<lparr>tm_shape = [5, 4], tm_stride = [4, 1], tm_dtype = ''float32''\<rparr>\<rparr>"

text \<open>
  An instance of the external methods on which the executor can be run: tensors are
  terms, each method wraps its argument in the call it stands for, and the result of a
  collective is an \<^verbatim>\<open>AsyncCollectiveTensor\<close>.
\<close>

datatype sym_tensor = Leaf nat | Op call sym_tensor | Waited sym_tensor

definition sym_ops :: "sym_tensor placement_ops" where
  "sym_ops =
     \<lparr>reduce_value = (\<lambda>op t m i. Op (ReduceValue i) t),
      reduce_shard_value = (\<lambda>op t m i p. Op (ReduceShardValue i) t),
      to_replicate_tensor = (\<lambda>d t m i ls. Op (ToReplicateTensor i) t),
      replicate_to_shard = (\<lambda>d t m i c. Op (ReplicateToShard i) t),
      to_new_shard_dim = (\<lambda>d t m i ls nd. Op (ToNewShardDim i) t),
      partition_value = (\<lambda>op t m i. Op (PartitionValue i) t),
      is_async_collective_tensor = (\<lambda>t. case t of Op c _ \<Rightarrow> is_collective c | _ \<Rightarrow> False),
      wait = Waited\<rparr>"

text \<open>
  The invariants of a spec in the spec's data model: one placement per mesh dim, positive
  mesh sizes, every sharded tensor dim within the rank of the global shape, and a
  member's coordinate with one entry per mesh dim.
\<close>

definition spec_invariants :: "dtensor_spec \<Rightarrow> bool" where
  "spec_invariants s \<longleftrightarrow>
     length (placements s) = length (mesh_shape (mesh s))
     \<and> list_all (\<lambda>n. 0 < n) (mesh_shape (mesh s))
     \<and> list_all (\<lambda>p. case p of Shard d \<Rightarrow> d < length (shape s) | _ \<Rightarrow> True) (placements s)
     \<and> (case coordinate (mesh s) of
          None \<Rightarrow> True
        | Some c \<Rightarrow> length c = length (mesh_shape (mesh s)))"

text \<open>
  Further concrete inputs: the worker at coordinate \<open>2\<close> of a one-dimensional mesh of size
  \<open>4\<close> with a tensor of global shape \<open>(8)\<close>, and a worker that is not a member of its
  \<open>2 \<times> 2\<close> mesh.
\<close>

definition mesh_1d :: device_mesh where
  "mesh_1d = \<lparr>mesh_shape = [4], mesh_ranks = [0, 1, 2, 3], coordinate = Some [2]\<rparr>"

definition spec_1d :: "placement list \<Rightarrow> dtensor_spec" where
  "spec_1d ps =
     \<lparr>mesh = mesh_1d, placements = ps,
      meta = \<lparr>tm_shape = [8], tm_stride = [1], tm_dtype = ''float32''\<rparr>\<rparr>"

definition mesh_outside :: device_mesh where
  "mesh_outside = \<lparr>mesh_shape = [2, 2], mesh_ranks = [0, 1, 2, 3], coordinate = None\<rparr>"

definition spec_outside :: "placement list \<Rightarrow> dtensor_spec" where
  "spec_outside ps =
     \<lparr>mesh = mesh_outside, placements = ps,
      meta = \<lparr>tm_shape = [4, 4], tm_stride = [4, 1], tm_dtype = ''float32''\<rparr>\<rparr>"

text \<open>
  The last statement of \<^verbatim>\<open>redistribute_local_tensor\<close>: a synchronous call waits on a
  result that is an \<^verbatim>\<open>AsyncCollectiveTensor\<close>.
\<close>

definition awaited :: "'t placement_ops \<Rightarrow> bool \<Rightarrow> 't \<Rightarrow> 't" where
  "awaited ops async_op t =
     (if \<not> async_op \<and> is_async_collective_tensor ops t then wait ops t else t)"

section \<open>Properties of the planner\<close>

subsection \<open>One visit of \<open>search_transform_infos\<close>\<close>

lemma apply_steps_append:
  "apply_steps cur (xs @ ys) =
     (case apply_steps cur xs of None \<Rightarrow> None | Some cur' \<Rightarrow> apply_steps cur' ys)"
  by (induction xs arbitrary: cur) (auto split: option.splits)

declare search_transform_infos.simps [simp del]

lemma reshardable_in_range:
  "reshardable_from_src_to_dst cur dst k = Inr b \<Longrightarrow> k < length cur \<and> k < length dst"
  by (auto simp: reshardable_from_src_to_dst_def split: if_splits)

lemma search_stop:
  "cur = dst \<or> idx < 0 \<or> n \<le> idx
     \<Longrightarrow> search_transform_infos cur dst idx n shapes acc ltr = Inr (cur, acc)"
  by (subst search_transform_infos.simps) auto

lemma search_skip:
  assumes "cur \<noteq> dst" "0 \<le> idx" "idx < n"
    and "reshardable_from_src_to_dst cur dst (nat idx) = Inr True"
    and "cur ! nat idx = dst ! nat idx"
  shows "search_transform_infos cur dst idx n shapes acc ltr =
           search_transform_infos cur dst (next_idx ltr idx) n shapes acc ltr"
  using assms reshardable_in_range [OF assms(4)]
  by (subst search_transform_infos.simps) (simp add: next_idx_def)

lemma search_emit:
  assumes "cur \<noteq> dst" "0 \<le> idx" "idx < n"
    and "reshardable_from_src_to_dst cur dst (nat idx) = Inr True"
    and "cur ! nat idx \<noteq> dst ! nat idx"
    and "nat idx < length shapes"
  shows "search_transform_infos cur dst idx n shapes acc ltr =
           search_transform_infos (cur[nat idx := dst ! nat idx]) dst (next_idx ltr idx) n shapes
             (acc @ [emitted (nat idx) (cur ! nat idx) (dst ! nat idx) shapes]) ltr"
  using assms reshardable_in_range [OF assms(4)]
  by (subst search_transform_infos.simps) (simp add: next_idx_def emitted_def Let_def)

lemma search_unshard:
  assumes "cur \<noteq> dst" "0 \<le> idx" "idx < n"
    and "reshardable_from_src_to_dst cur dst (nat idx) = Inr False"
    and "nat idx < length shapes"
  shows "search_transform_infos cur dst idx n shapes acc False =
           search_transform_infos (cur[nat idx := Replicate]) dst (idx - 1) n shapes
             (acc @ [emitted (nat idx) (cur ! nat idx) Replicate shapes]) False"
  using assms reshardable_in_range [OF assms(4)]
  by (subst search_transform_infos.simps) (simp add: emitted_def Let_def)

lemma reshardable_error:
  "reshardable_from_src_to_dst cur dst k = Inl e
     \<Longrightarrow> e = IndexError \<and> (length cur \<le> k \<or> length dst \<le> k)"
  by (auto simp: reshardable_from_src_to_dst_def Let_def split: if_splits placement.splits prod.splits)

text \<open>
  The five ways a visit can go. When it raises, the exception depends on the logical
  shapes through their number only, and not on the infos collected so far.
\<close>

lemma search_cases [case_names stop raise skip emit unshard]:
  obtains
    "cur = dst \<or> idx < 0 \<or> n \<le> idx"
  | e where "\<And>shapes' acc'. length shapes' = length shapes
               \<Longrightarrow> search_transform_infos cur dst idx n shapes' acc' ltr = Inl e"
  | "cur \<noteq> dst" "0 \<le> idx" "idx < n"
      "reshardable_from_src_to_dst cur dst (nat idx) = Inr True"
      "cur ! nat idx = dst ! nat idx"
  | "cur \<noteq> dst" "0 \<le> idx" "idx < n"
      "reshardable_from_src_to_dst cur dst (nat idx) = Inr True"
      "cur ! nat idx \<noteq> dst ! nat idx" "nat idx < length shapes"
  | "cur \<noteq> dst" "0 \<le> idx" "idx < n"
      "reshardable_from_src_to_dst cur dst (nat idx) = Inr False"
      "nat idx < length shapes" "\<not> ltr"
proof (cases "cur = dst \<or> idx < 0 \<or> n \<le> idx")
  case True
  then show ?thesis by (rule that(1))
next
  case False
  then have a: "cur \<noteq> dst" "0 \<le> idx" "idx < n" by auto
  show ?thesis
  proof (cases "reshardable_from_src_to_dst cur dst (nat idx)")
    case (Inl e)
    from reshardable_error [OF Inl] a
    have "search_transform_infos cur dst idx n shapes' acc' ltr = Inl IndexError"
      for shapes' acc'
      by (subst search_transform_infos.simps) (simp add: Let_def)
    then show ?thesis by (rule that(2))
  next
    case (Inr b)
    note rng = reshardable_in_range [OF Inr]
    show ?thesis
    proof (cases b)
      case True
      show ?thesis
      proof (cases "cur ! nat idx = dst ! nat idx")
        case True
        with Inr \<open>b\<close> a show ?thesis using that(3) by simp
      next
        case diff: False
        show ?thesis
        proof (cases "nat idx < length shapes")
          case True
          with Inr \<open>b\<close> a diff show ?thesis using that(4) by simp
        next
          case False
          with Inr \<open>b\<close> a diff rng
          have "search_transform_infos cur dst idx n shapes' acc' ltr = Inl IndexError"
            if "length shapes' = length shapes" for shapes' acc'
            using that by (subst search_transform_infos.simps) (simp add: Let_def)
          then show ?thesis by (rule that(2))
        qed
      qed
    next
      case nb: False
      show ?thesis
      proof (cases ltr)
        case True
        with a Inr nb rng
        have "search_transform_infos cur dst idx n shapes' acc' ltr = Inl RuntimeError"
          for shapes' acc'
          by (subst search_transform_infos.simps) (simp add: Let_def)
        then show ?thesis by (rule that(2))
      next
        case nl: False
        show ?thesis
        proof (cases "nat idx < length shapes")
          case True
          with Inr nb a nl show ?thesis using that(5) by simp
        next
          case False
          with Inr nb a nl rng
          have "search_transform_infos cur dst idx n shapes' acc' ltr = Inl IndexError"
            if "length shapes' = length shapes" for shapes' acc'
            using that by (subst search_transform_infos.simps) (simp add: Let_def)
          then show ?thesis by (rule that(2))
        qed
      qed
    qed
  qed
qed

lemma search_trace:
  "search_transform_infos cur dst idx n shapes acc ltr = Inr (cur', acc')
     \<Longrightarrow> apply_steps src0 acc = Some cur
     \<Longrightarrow> apply_steps src0 acc' = Some cur'"
proof (induction "search_measure ltr n idx" arbitrary: cur idx acc rule: less_induct)
  case less
  show ?case
  proof (cases rule: search_cases [where cur = cur and dst = dst and idx = idx and n = n
      and shapes = shapes and ltr = ltr])
    case stop
    with less.prems show ?thesis by (simp add: search_stop)
  next
    case (raise e)
    from raise [OF refl, of acc] less.prems show ?thesis by simp
  next
    case skip
    have m: "search_measure ltr n (next_idx ltr idx) < search_measure ltr n idx"
      using skip(2,3) by (simp add: search_measure_def next_idx_def)
    from less.prems(1) have "search_transform_infos cur dst (next_idx ltr idx) n shapes acc ltr
        = Inr (cur', acc')"
      by (simp add: search_skip [OF skip])
    from less.hyps [OF m this less.prems(2)] show ?thesis .
  next
    case emit
    note rng = reshardable_in_range [OF emit(4)]
    have m: "search_measure ltr n (next_idx ltr idx) < search_measure ltr n idx"
      using emit(2,3) by (simp add: search_measure_def next_idx_def)
    have st: "apply_steps src0 (acc @ [emitted (nat idx) (cur ! nat idx) (dst ! nat idx) shapes])
                = Some (cur[nat idx := dst ! nat idx])"
      using less.prems(2) rng by (simp add: apply_steps_append apply_step_def emitted_def)
    from less.prems(1) have "search_transform_infos (cur[nat idx := dst ! nat idx]) dst
        (next_idx ltr idx) n shapes
        (acc @ [emitted (nat idx) (cur ! nat idx) (dst ! nat idx) shapes]) ltr = Inr (cur', acc')"
      by (simp add: search_emit [OF emit])
    from less.hyps [OF m this st] show ?thesis .
  next
    case unshard
    note rng = reshardable_in_range [OF unshard(4)]
    from unshard(6) have ltr: "ltr = False" by simp
    have m: "search_measure ltr n (idx - 1) < search_measure ltr n idx"
      using unshard(2,3) ltr by (simp add: search_measure_def)
    have st: "apply_steps src0 (acc @ [emitted (nat idx) (cur ! nat idx) Replicate shapes])
                = Some (cur[nat idx := Replicate])"
      using less.prems(2) rng by (simp add: apply_steps_append apply_step_def emitted_def)
    from less.prems(1) have "search_transform_infos (cur[nat idx := Replicate]) dst
        (idx - 1) n shapes
        (acc @ [emitted (nat idx) (cur ! nat idx) Replicate shapes]) ltr = Inr (cur', acc')"
      unfolding ltr by (simp add: search_unshard [OF unshard(1-5)])
    from less.hyps [OF m this st] show ?thesis .
  qed
qed

lemma search_ltr_done:
  "search_transform_infos cur dst idx n shapes acc True = Inr (cur', acc')
     \<Longrightarrow> 0 \<le> idx \<Longrightarrow> length cur = length dst \<Longrightarrow> int (length cur) \<le> n
     \<Longrightarrow> take (nat idx) cur = take (nat idx) dst
     \<Longrightarrow> cur' = dst"
proof (induction "search_measure True n idx" arbitrary: cur idx acc rule: less_induct)
  case less
  show ?case
  proof (cases rule: search_cases [where cur = cur and dst = dst and idx = idx and n = n
      and shapes = shapes and ltr = True])
    case stop
    with less.prems have "cur = dst" by auto
    with less.prems show ?thesis by (simp add: search_stop)
  next
    case (raise e)
    from raise [OF refl, of acc] less.prems show ?thesis by simp
  next
    case skip
    note rng = reshardable_in_range [OF skip(4)]
    have m: "search_measure True n (next_idx True idx) < search_measure True n idx"
      using skip(2,3) by (simp add: search_measure_def next_idx_def)
    have tk: "take (nat (next_idx True idx)) cur = take (nat (next_idx True idx)) dst"
      using skip(2,5) rng less.prems(5)
      by (simp add: next_idx_def nat_add_distrib take_Suc_conv_app_nth)
    from less.prems(1) have "search_transform_infos cur dst (next_idx True idx) n shapes acc True
        = Inr (cur', acc')"
      by (simp add: search_skip [OF skip])
    from less.hyps [OF m this _ less.prems(3,4) tk] skip(2) show ?thesis
      by (simp add: next_idx_def)
  next
    case emit
    note rng = reshardable_in_range [OF emit(4)]
    have m: "search_measure True n (next_idx True idx) < search_measure True n idx"
      using emit(2,3) by (simp add: search_measure_def next_idx_def)
    have tk: "take (nat (next_idx True idx)) (cur[nat idx := dst ! nat idx])
                = take (nat (next_idx True idx)) dst"
      using emit(2) rng less.prems(5)
      by (simp add: next_idx_def nat_add_distrib take_Suc_conv_app_nth)
    from less.prems(1) have "search_transform_infos (cur[nat idx := dst ! nat idx]) dst
        (next_idx True idx) n shapes
        (acc @ [emitted (nat idx) (cur ! nat idx) (dst ! nat idx) shapes]) True = Inr (cur', acc')"
      by (simp add: search_emit [OF emit])
    from less.hyps [OF m this _ _ _ tk] emit(2) less.prems(3,4) show ?thesis
      by (simp add: next_idx_def)
  next
    case unshard
    then show ?thesis by simp
  qed
qed


lemma apply_steps_length:
  "apply_steps cur ts = Some cur' \<Longrightarrow> length cur' = length cur"
  by (induction ts arbitrary: cur) (auto simp: apply_step_def split: option.splits if_splits)

lemma plan_2x2_nested:
  "gen_transform_infos (spec_2x2 [Shard 0, Shard 0]) (spec_2x2 [Replicate, Shard 0]) =
     Inr [\<lparr>mesh_dim = 1, src_dst_placements = (Shard 0, Replicate), logical_shape = [2, 4]\<rparr>,
          \<lparr>mesh_dim = 0, src_dst_placements = (Shard 0, Replicate), logical_shape = [4, 4]\<rparr>,
          \<lparr>mesh_dim = 1, src_dst_placements = (Replicate, Shard 0), logical_shape = [2, 4]\<rparr>]"
  by (simp add: spec_2x2_def mesh_2x2_def gen_transform_infos_def get_coordinate_def ndim_def
      shape_def num_shards_def mesh_size_def local_shard_size_on_dim_def
      reshardable_from_src_to_dst_def Let_def search_transform_infos.simps)

text \<open>
  C1 (planner soundness at the placement level). Whenever the planner returns a plan for
  two specs whose placement lists have one entry per dim of the source's mesh, reading
  each transform info \<open>(mesh_dim, from, to)\<close> as "the placement at \<open>mesh_dim\<close>, currently
  \<open>from\<close>, becomes \<open>to\<close>" and applying the plan in order takes the source placements to
  the destination placements; every step finds its \<open>from\<close> at its mesh dim when it is
  applied, for \<open>apply_steps\<close> is \<open>None\<close> otherwise.
\<close>

theorem planner_sound:
  assumes plan: "gen_transform_infos src_spec dst_spec = Inr infos"
    and ls: "length (placements src_spec) = length (mesh_shape (mesh src_spec))"
    and ld: "length (placements dst_spec) = length (mesh_shape (mesh src_spec))"
  shows "apply_steps (placements src_spec) infos = Some (placements dst_spec)"
proof (cases "ndim (mesh src_spec) = 1")
  case True
  with ls ld obtain s d where sd: "placements src_spec = [s]" "placements dst_spec = [d]"
    by (auto simp: ndim_def length_Suc_conv)
  with True plan show ?thesis
    by (auto simp: gen_transform_infos_def Let_def apply_step_def split: option.splits)
next
  case False
  let ?n = "ndim (mesh src_spec)"
  from plan False obtain shapes b cur1 infos1 cur2 where
    first: "(if b then search_transform_infos (placements src_spec) (placements dst_spec)
               (?n - 1) ?n shapes [] False
             else Inr (placements src_spec, [])) = Inr (cur1, infos1)"
    and second: "search_transform_infos cur1 (placements dst_spec) 0 ?n shapes infos1 True
                   = Inr (cur2, infos)"
    by (fastforce simp: gen_transform_infos_def Let_def split: option.splits sum.splits)
  have t1: "apply_steps (placements src_spec) infos1 = Some cur1"
  proof (cases b)
    case True
    with first show ?thesis by (auto intro: search_trace)
  next
    case False
    with first show ?thesis by simp
  qed
  have t2: "apply_steps (placements src_spec) infos = Some cur2"
    by (rule search_trace [OF second t1])
  have len: "length cur1 = length (placements dst_spec)"
    using apply_steps_length [OF t1] ls ld by simp
  have "cur2 = placements dst_spec"
    by (rule search_ltr_done [OF second]) (use len ld in \<open>simp_all add: ndim_def\<close>)
  with t2 show ?thesis by simp
qed

theorem planner_sound_witness:
  "gen_transform_infos (spec_2x2 [Shard 0, Shard 0]) (spec_2x2 [Replicate, Shard 0]) =
     Inr [\<lparr>mesh_dim = 1, src_dst_placements = (Shard 0, Replicate), logical_shape = [2, 4]\<rparr>,
          \<lparr>mesh_dim = 0, src_dst_placements = (Shard 0, Replicate), logical_shape = [4, 4]\<rparr>,
          \<lparr>mesh_dim = 1, src_dst_placements = (Replicate, Shard 0), logical_shape = [2, 4]\<rparr>]
   \<and> length (placements (spec_2x2 [Shard 0, Shard 0]))
        = length (mesh_shape (mesh (spec_2x2 [Shard 0, Shard 0])))
   \<and> length (placements (spec_2x2 [Replicate, Shard 0]))
        = length (mesh_shape (mesh (spec_2x2 [Shard 0, Shard 0])))
   \<and> apply_steps [Shard 0, Shard 0]
        [\<lparr>mesh_dim = 1, src_dst_placements = (Shard 0, Replicate), logical_shape = [2, 4]\<rparr>,
         \<lparr>mesh_dim = 0, src_dst_placements = (Shard 0, Replicate), logical_shape = [4, 4]\<rparr>,
         \<lparr>mesh_dim = 1, src_dst_placements = (Replicate, Shard 0), logical_shape = [2, 4]\<rparr>]
       = Some [Replicate, Shard 0]"
proof -
  have l1: "length (placements (spec_2x2 [Shard 0, Shard 0]))
              = length (mesh_shape (mesh (spec_2x2 [Shard 0, Shard 0])))"
    by (simp add: spec_2x2_def mesh_2x2_def)
  have l2: "length (placements (spec_2x2 [Replicate, Shard 0]))
              = length (mesh_shape (mesh (spec_2x2 [Shard 0, Shard 0])))"
    by (simp add: spec_2x2_def mesh_2x2_def)
  from planner_sound [OF plan_2x2_nested l1 l2] plan_2x2_nested l1 l2
  show ?thesis by (simp add: spec_2x2_def)
qed

text \<open>
  C2 (scenario S3). On a \<open>2 \<times> 2\<close> mesh with global shape \<open>(4, 4)\<close>, the plan for
  \<open>(Shard 0, Shard 0) \<rightarrow> (Replicate, Shard 0)\<close> is, on every worker, the three steps
  \<open>(1, Shard 0, Replicate)\<close>, \<open>(0, Shard 0, Replicate)\<close>, \<open>(1, Replicate, Shard 0)\<close>, in
  this order.
\<close>

theorem scenario_S3:
  "gen_transform_infos
     \<lparr>mesh = \<lparr>mesh_shape = [2, 2], mesh_ranks = ranks, coordinate = Some [c0, c1]\<rparr>,
      placements = [Shard 0, Shard 0],
      meta = \<lparr>tm_shape = [4, 4], tm_stride = stride, tm_dtype = dtype\<rparr>\<rparr>
     \<lparr>mesh = \<lparr>mesh_shape = [2, 2], mesh_ranks = ranks, coordinate = Some [c0, c1]\<rparr>,
      placements = [Replicate, Shard 0],
      meta = \<lparr>tm_shape = [4, 4], tm_stride = stride, tm_dtype = dtype\<rparr>\<rparr>
   = Inr [\<lparr>mesh_dim = 1, src_dst_placements = (Shard 0, Replicate), logical_shape = [2, 4]\<rparr>,
          \<lparr>mesh_dim = 0, src_dst_placements = (Shard 0, Replicate), logical_shape = [4, 4]\<rparr>,
          \<lparr>mesh_dim = 1, src_dst_placements = (Replicate, Shard 0), logical_shape = [2, 4]\<rparr>]"
  by (simp add: gen_transform_infos_def get_coordinate_def ndim_def shape_def num_shards_def
      mesh_size_def local_shard_size_on_dim_def reshardable_from_src_to_dst_def Let_def
      search_transform_infos.simps)

subsection \<open>The reshardability predicate\<close>

lemma is_shard_of_iff: "is_shard_of d p \<longleftrightarrow> p = Shard d"
  by (cases p) auto

lemma innermost_scan_Max:
  "innermost_scan cur d md n =
     (if \<exists>j<n. cur ! j = Shard d then Max {j. j < n \<and> cur ! j = Shard d} = md else True)"
proof (induction n)
  case 0
  then show ?case by simp
next
  case (Suc n)
  show ?case
  proof (cases "cur ! n = Shard d")
    case True
    have fin: "finite {j. j < Suc n \<and> cur ! j = Shard d}" by simp
    have "Max {j. j < Suc n \<and> cur ! j = Shard d} = n"
      by (rule Max_eqI [OF fin]) (use True in auto)
    with True show ?thesis by (auto simp: is_shard_of_iff)
  next
    case False
    then have eq: "{j. j < Suc n \<and> cur ! j = Shard d} = {j. j < n \<and> cur ! j = Shard d}"
      by (auto simp: less_Suc_eq)
    from False have ex: "(\<exists>j<Suc n. cur ! j = Shard d) \<longleftrightarrow> (\<exists>j<n. cur ! j = Shard d)"
      by (auto simp: less_Suc_eq)
    from False have "innermost_scan cur d md (Suc n) = innermost_scan cur d md n"
      by (simp add: is_shard_of_iff)
    also note Suc.IH
    finally show ?thesis unfolding eq ex .
  qed
qed

lemma mesh_sharding_loop_filter:
  "i \<le> md \<Longrightarrow> md \<le> length zs
     \<Longrightarrow> mesh_sharding_loop md sd i (drop i zs) (cms, tms) =
           (cms @ filter (\<lambda>j. is_shard_of sd (fst (zs ! j))) [i..<md],
            tms @ filter (\<lambda>j. is_shard_of sd (snd (zs ! j))) [i..<md])"
proof (induction "md - i" arbitrary: i cms tms)
  case 0
  then have "i = md" by simp
  then show ?case by (cases "drop md zs") auto
next
  case (Suc k)
  then have lt: "i < md" "i < length zs" by auto
  then have d: "drop i zs = zs ! i # drop (Suc i) zs" by (simp add: Cons_nth_drop_Suc)
  from Suc(2) lt have k: "k = md - Suc i" by simp
  obtain s p where sp: "zs ! i = (s, p)" by (cases "zs ! i")
  from lt have u: "[i..<md] = i # [Suc i..<md]" by (simp add: upt_conv_Cons)
  have ih: "mesh_sharding_loop md sd (Suc i) (drop (Suc i) zs) (cms', tms') =
      (cms' @ filter (\<lambda>j. is_shard_of sd (fst (zs ! j))) [Suc i..<md],
       tms' @ filter (\<lambda>j. is_shard_of sd (snd (zs ! j))) [Suc i..<md])" for cms' tms'
    using Suc(1) [OF k] lt Suc.prems by simp
  show ?case
    unfolding d u using lt by (simp add: sp ih)
qed

lemma filter_upt_eq_iff:
  "filter P [0..<n] = filter Q [0..<n] \<longleftrightarrow> {j. j < n \<and> P j} = {j. j < n \<and> Q j}"
proof
  assume "filter P [0..<n] = filter Q [0..<n]"
  then have "set (filter P [0..<n]) = set (filter Q [0..<n])" by (rule arg_cong)
  moreover have "set (filter R [0..<n]) = {j. j < n \<and> R j}" for R by auto
  ultimately show "{j. j < n \<and> P j} = {j. j < n \<and> Q j}" by simp
next
  assume eq: "{j. j < n \<and> P j} = {j. j < n \<and> Q j}"
  have "P j = Q j" if "j < n" for j
  proof -
    from that have "j \<in> {j. j < n \<and> P j} \<longleftrightarrow> P j" "j \<in> {j. j < n \<and> Q j} \<longleftrightarrow> Q j"
      by simp_all
    with eq show ?thesis by simp
  qed
  then show "filter P [0..<n] = filter Q [0..<n]" by (intro filter_cong) simp_all
qed

text \<open>
  C4 (reshardability predicate). For a mesh dim \<open>i\<close> inside both placement lists,
  \<open>reshardable_from_src_to_dst cur dst i\<close> returns false when \<open>cur ! i\<close> is \<open>Shard d\<close> and
  the last mesh dim whose current placement is \<open>Shard d\<close> is not \<open>i\<close>; otherwise it
  returns true when \<open>dst ! i\<close> is not a shard, and when \<open>dst ! i\<close> is \<open>Shard d'\<close> it returns
  true exactly when the mesh dims below \<open>i\<close> that currently shard tensor dim \<open>d'\<close> are the
  mesh dims below \<open>i\<close> that shard it in the destination.
\<close>

theorem reshardable_characterisation:
  assumes "i < length cur" and "i < length dst"
  shows "reshardable_from_src_to_dst cur dst i =
           Inr (if \<exists>d. cur ! i = Shard d \<and> Max {j. j < length cur \<and> cur ! j = Shard d} \<noteq> i
                then False
                else (case dst ! i of
                        Shard d' \<Rightarrow>
                          {j. j < i \<and> cur ! j = Shard d'} = {j. j < i \<and> dst ! j = Shard d'}
                      | _ \<Rightarrow> True))"
proof -
  have scan: "(case cur ! i of Shard d \<Rightarrow> \<not> innermost_scan cur d i (length cur) | _ \<Rightarrow> False)
                \<longleftrightarrow> (\<exists>d. cur ! i = Shard d \<and> Max {j. j < length cur \<and> cur ! j = Shard d} \<noteq> i)"
    using assms(1) by (cases "cur ! i") (auto simp: innermost_scan_Max)
  have loop: "mesh_sharding_loop i sd 0 (zip cur dst) ([], []) =
                (filter (\<lambda>j. is_shard_of sd (fst (zip cur dst ! j))) [0..<i],
                 filter (\<lambda>j. is_shard_of sd (snd (zip cur dst ! j))) [0..<i])" for sd
    using mesh_sharding_loop_filter [of 0 i "zip cur dst" sd "[]" "[]"] assms by simp
  have f1: "filter (\<lambda>j. is_shard_of sd (fst (zip cur dst ! j))) [0..<i]
              = filter (\<lambda>j. cur ! j = Shard sd) [0..<i]" for sd
    using assms by (intro filter_cong) (auto simp: is_shard_of_iff)
  have f2: "filter (\<lambda>j. is_shard_of sd (snd (zip cur dst ! j))) [0..<i]
              = filter (\<lambda>j. dst ! j = Shard sd) [0..<i]" for sd
    using assms by (intro filter_cong) (auto simp: is_shard_of_iff)
  let ?outer = "\<exists>d. cur ! i = Shard d \<and> Max {j. j < length cur \<and> cur ! j = Shard d} \<noteq> i"
  define outer where "outer \<longleftrightarrow> ?outer"
  note scan' = scan [folded outer_def]
  have unfold: "reshardable_from_src_to_dst cur dst i =
      (if outer then Inr False
       else (case dst ! i of
               Shard sd \<Rightarrow>
                 Inr (filter (\<lambda>j. cur ! j = Shard sd) [0..<i] =
                      filter (\<lambda>j. dst ! j = Shard sd) [0..<i])
             | _ \<Rightarrow> Inr True))"
    unfolding reshardable_from_src_to_dst_def Let_def scan'
    using assms by (cases "dst ! i") (simp_all add: loop f1 f2)
  have "reshardable_from_src_to_dst cur dst i =
      Inr (if outer then False
           else (case dst ! i of
                   Shard d' \<Rightarrow>
                     {j. j < i \<and> cur ! j = Shard d'} = {j. j < i \<and> dst ! j = Shard d'}
                 | _ \<Rightarrow> True))"
    unfolding unfold by (cases "dst ! i") (simp_all add: filter_upt_eq_iff)
  then show ?thesis unfolding outer_def .
qed

theorem reshardable_characterisation_witness:
  "(1::nat) < length [Shard 0, Shard 0] \<and> (1::nat) < length [Replicate, Shard 0]
   \<and> reshardable_from_src_to_dst [Shard 0, Shard 0] [Replicate, Shard 0] 1 =
       Inr (if \<exists>d. [Shard 0, Shard 0] ! 1 = Shard d
                  \<and> Max {j. j < length [Shard 0, Shard 0] \<and> [Shard 0, Shard 0] ! j = Shard d} \<noteq> 1
            then False
            else (case [Replicate, Shard 0] ! 1 of
                    Shard d' \<Rightarrow>
                      {j. j < 1 \<and> [Shard 0, Shard 0] ! j = Shard d'}
                        = {j. j < 1 \<and> [Replicate, Shard 0] ! j = Shard d'}
                  | _ \<Rightarrow> True))
   \<and> reshardable_from_src_to_dst [Shard 0, Shard 0] [Replicate, Shard 0] 1 = Inr False"
proof -
  have a: "(1::nat) < length [Shard 0, Shard 0]" and b: "(1::nat) < length [Replicate, Shard 0]"
    by simp_all
  have c: "reshardable_from_src_to_dst [Shard 0, Shard 0] [Replicate, Shard 0] 1 = Inr False"
    by (simp add: reshardable_from_src_to_dst_def)
  from reshardable_characterisation [OF a b] a b c show ?thesis by blast
qed

subsection \<open>The inner-to-outer pass\<close>

text \<open>
  C3 as stated fails. In scenario S3 the pass visits mesh dim \<open>1\<close> with
  \<open>cur = (Shard 0, Shard 0)\<close> and \<open>dst = (Replicate, Shard 0)\<close>: the placements at dim \<open>1\<close>
  are equal, yet the dim is not reshardable (the outer \<open>Shard 0\<close> is not matched in the
  destination), and the visit emits \<open>(1, Shard 0, Replicate)\<close>. The source's docstring
  describes exactly this case as one that needs resharding.
\<close>

theorem inner_to_outer_skip_counterexample:
  "[Shard 0, Shard 0] ! 1 = [Replicate, Shard 0] ! 1
   \<and> search_transform_infos [Shard 0, Shard 0] [Replicate, Shard 0] 1 2 [[4, 4], [2, 4]] [] False
       = Inr ([Replicate, Replicate],
              [\<lparr>mesh_dim = 1, src_dst_placements = (Shard 0, Replicate), logical_shape = [2, 4]\<rparr>,
               \<lparr>mesh_dim = 0, src_dst_placements = (Shard 0, Replicate), logical_shape = [4, 4]\<rparr>])"
  by (simp add: search_transform_infos.simps reshardable_from_src_to_dst_def Let_def)

text \<open>
  C3, amended. During the inner-to-outer pass, a visit of a mesh dim \<open>i\<close> at which the
  current placement equals the destination placement and which is reshardable emits no
  step and leaves the placements as they are: the pass goes on at \<open>i - 1\<close> with the same
  state.
\<close>

theorem inner_to_outer_skip_reshardable:
  assumes "0 \<le> i" and "i < n"
    and "reshardable_from_src_to_dst cur dst (nat i) = Inr True"
    and "cur ! nat i = dst ! nat i"
  shows "search_transform_infos cur dst i n shapes acc False =
           search_transform_infos cur dst (i - 1) n shapes acc False"
proof (cases "cur = dst")
  case True
  then show ?thesis by (simp add: search_stop)
next
  case False
  from search_skip [OF False assms, of shapes acc False] show ?thesis
    by (simp add: next_idx_def)
qed

theorem inner_to_outer_skip_reshardable_witness:
  "(0::int) \<le> 1 \<and> (1::int) < 2
   \<and> reshardable_from_src_to_dst [Shard 0, Replicate] [Replicate, Replicate] (nat 1) = Inr True
   \<and> [Shard 0, Replicate] ! nat 1 = [Replicate, Replicate] ! nat 1
   \<and> search_transform_infos [Shard 0, Replicate] [Replicate, Replicate] 1 2 [[4, 4], [2, 4]] [] False
       = search_transform_infos [Shard 0, Replicate] [Replicate, Replicate] (1 - 1) 2
           [[4, 4], [2, 4]] [] False"
proof -
  have a: "(0::int) \<le> 1" and b: "(1::int) < 2" by simp_all
  have c: "reshardable_from_src_to_dst [Shard 0, Replicate] [Replicate, Replicate] (nat 1) = Inr True"
    by (simp add: reshardable_from_src_to_dst_def)
  have d: "[Shard 0, Replicate] ! nat 1 = [Replicate, Replicate] ! nat 1" by simp
  from inner_to_outer_skip_reshardable [OF a b c d, of "[[4, 4], [2, 4]]" "[]"] a b c d
  show ?thesis by blast
qed

subsection \<open>The plan does not depend on the worker\<close>

lemma step_triple_emitted [simp]: "step_triple (emitted k p q shapes) = (k, p, q)"
  by (simp add: step_triple_def emitted_def)

lemma search_shapes_irrelevant:
  "length sh1 = length sh2 \<Longrightarrow> map step_triple a1 = map step_triple a2
     \<Longrightarrow> search_triples (search_transform_infos cur dst idx n sh1 a1 ltr) =
         search_triples (search_transform_infos cur dst idx n sh2 a2 ltr)"
proof (induction "search_measure ltr n idx" arbitrary: cur idx a1 a2 rule: less_induct)
  case less
  note len = less.prems(1)
  show ?case
  proof (cases rule: search_cases [where cur = cur and dst = dst and idx = idx and n = n
      and shapes = sh1 and ltr = ltr])
    case stop
    with less.prems show ?thesis by (simp add: search_stop search_triples_def)
  next
    case (raise e)
    from raise [OF refl, of a1] raise [OF len [symmetric], of a2] show ?thesis by simp
  next
    case skip
    have m: "search_measure ltr n (next_idx ltr idx) < search_measure ltr n idx"
      using skip(2,3) by (simp add: search_measure_def next_idx_def)
    from less.hyps [OF m less.prems] show ?thesis
      by (simp add: search_skip [OF skip])
  next
    case emit
    from emit(6) len have in2: "nat idx < length sh2" by simp
    have m: "search_measure ltr n (next_idx ltr idx) < search_measure ltr n idx"
      using emit(2,3) by (simp add: search_measure_def next_idx_def)
    have acc: "map step_triple (a1 @ [emitted (nat idx) (cur ! nat idx) (dst ! nat idx) sh1]) =
               map step_triple (a2 @ [emitted (nat idx) (cur ! nat idx) (dst ! nat idx) sh2])"
      using less.prems(2) by simp
    from less.hyps [OF m len acc] show ?thesis
      by (simp add: search_emit [OF emit] search_emit [OF emit(1-5) in2])
  next
    case unshard
    from unshard(5) len have in2: "nat idx < length sh2" by simp
    from unshard(6) have ltr: "ltr = False" by simp
    have m: "search_measure ltr n (idx - 1) < search_measure ltr n idx"
      using unshard(2,3) ltr by (simp add: search_measure_def)
    have acc: "map step_triple (a1 @ [emitted (nat idx) (cur ! nat idx) Replicate sh1]) =
               map step_triple (a2 @ [emitted (nat idx) (cur ! nat idx) Replicate sh2])"
      using less.prems(2) by simp
    from less.hyps [OF m len acc] show ?thesis
      unfolding ltr
      by (simp add: search_unshard [OF unshard(1-5)] search_unshard [OF unshard(1-4) in2])
  qed
qed


lemma local_shard_size_error:
  "local_shard_size_on_dim x sz c = Inl e \<longleftrightarrow> sz = 0 \<and> e = ZeroDivisionError"
  by (auto simp: local_shard_size_on_dim_def Let_def)

lemma local_shard_size_cases:
  obtains "sz = 0" "\<And>x c. local_shard_size_on_dim x sz c = Inl ZeroDivisionError"
  | "sz \<noteq> 0" "\<And>x c. \<exists>l p. local_shard_size_on_dim x sz c = Inr (l, p)"
  by (cases "sz = 0") (auto simp: local_shard_size_on_dim_def Let_def)

lemma map_length_nth:
  "map length sh1 = map length sh2 \<Longrightarrow> i < length sh1 \<Longrightarrow> length (sh1 ! i) = length (sh2 ! i)"
  by (metis length_map nth_map)

lemma logical_shape_loop_coordinate:
  "length c1 = length c2 \<Longrightarrow> map length sh1 = map length sh2
     \<Longrightarrow> rel_sum (=) (\<lambda>r1 r2. map length r1 = map length r2)
           (logical_shape_loop m c1 i zs sh1) (logical_shape_loop m c2 i zs sh2)"
proof (induction zs arbitrary: i sh1 sh2)
  case Nil
  then show ?case by simp
next
  case (Cons z zs)
  obtain src dst where z: "z = (src, dst)" by (cases z)
  from Cons.prems(2) have len: "length sh1 = length sh2" by (rule map_eq_imp_length_eq)
  show ?case
  proof (cases "i < length sh1")
    case False
    with len show ?thesis by (simp add: z)
  next
    case True
    with len have in2: "i < length sh2" by simp
    note rank = map_length_nth [OF Cons.prems(2) True]
    have keep: "rel_sum (=) (\<lambda>r1 r2. map length r1 = map length r2)
        (logical_shape_loop m c1 (Suc i) zs sh1) (logical_shape_loop m c2 (Suc i) zs sh2)"
      by (rule Cons.IH [OF Cons.prems])
    have app: "rel_sum (=) (\<lambda>r1 r2. map length r1 = map length r2)
        (logical_shape_loop m c1 (Suc i) zs (sh1 @ [x1]))
        (logical_shape_loop m c2 (Suc i) zs (sh2 @ [x2]))" if "length x1 = length x2" for x1 x2
      by (rule Cons.IH [OF Cons.prems(1)]) (use Cons.prems(2) that in simp)
    show ?thesis
    proof (cases src)
      case Replicate
      with True in2 app [OF rank] show ?thesis by (simp add: z)
    next
      case (Partial op)
      with True in2 app [OF rank] show ?thesis by (simp add: z)
    next
      case (Shard d)
      show ?thesis
      proof (cases "int i < ndim m - 1")
        case False
        with Shard True in2 keep show ?thesis by (simp add: z)
      next
        case inner: True
        show ?thesis
        proof (cases "mesh_size m i")
          case (Inl e)
          with Shard True in2 inner show ?thesis by (simp add: z)
        next
          case (Inr sz)
          show ?thesis
          proof (cases "length (sh1 ! i) \<le> d \<or> length c1 \<le> i")
            case bad: True
            with Shard True in2 inner Inr rank Cons.prems(1) show ?thesis
              by (auto simp: z Let_def)
          next
            case ok: False
            show ?thesis
            proof (cases rule: local_shard_size_cases [of sz])
              case 1
              with Shard True in2 inner Inr rank Cons.prems(1) ok show ?thesis
                by (simp add: z Let_def)
            next
              case 2
              from 2(2) obtain l1 p1 where l1:
                "local_shard_size_on_dim (sh1 ! i ! d) sz (c1 ! i) = Inr (l1, p1)" by blast
              from 2(2) obtain l2 p2 where l2:
                "local_shard_size_on_dim (sh2 ! i ! d) sz (c2 ! i) = Inr (l2, p2)" by blast
              have "length ((sh1 ! i)[d := l1]) = length ((sh2 ! i)[d := l2])"
                using rank by simp
              from app [OF this] Shard True in2 inner Inr rank Cons.prems(1) ok l1 l2
              show ?thesis by (simp add: z Let_def)
            qed
          qed
        qed
      qed
    qed
  qed
qed

lemma num_shards_loop_mesh:
  "mesh_shape m1 = mesh_shape m2 \<Longrightarrow> num_shards_loop m1 i ps acc = num_shards_loop m2 i ps acc"
  by (induction ps arbitrary: i acc) (simp_all add: mesh_size_def)

lemma logical_shape_loop_mesh:
  "mesh_shape m1 = mesh_shape m2
     \<Longrightarrow> logical_shape_loop m1 c i zs sh = logical_shape_loop m2 c i zs sh"
proof (induction zs arbitrary: i sh)
  case Nil
  then show ?case by simp
next
  case (Cons z zs)
  obtain src dst where z: "z = (src, dst)" by (cases z)
  from Cons.prems have "mesh_size m1 = mesh_size m2" "ndim m1 = ndim m2"
    by (auto simp: mesh_size_def ndim_def)
  with Cons.IH [OF Cons.prems] show ?case
    by (cases src) (simp_all add: z Let_def split: sum.splits prod.splits)
qed


lemma search_triples_Inl [simp]: "search_triples (Inl e) = Inl e"
  by (simp add: search_triples_def)

lemma search_triples_Inr [simp]:
  "search_triples (Inr (cur, infos)) = Inr (cur, map step_triple infos)"
  by (simp add: search_triples_def)

lemma search_triples_eq_Inr:
  "search_triples r = Inr (cur, ts) \<longleftrightarrow> (\<exists>infos. r = Inr (cur, infos) \<and> ts = map step_triple infos)"
  by (cases r) (auto simp: search_triples_def)

lemma search_triples_eq_Inl: "search_triples r = Inl e \<longleftrightarrow> r = Inl e"
  by (cases r) (auto simp: search_triples_def)

lemma two_pass_triples:
  assumes len: "length sh1 = length sh2"
  shows "plan_triples
           (case (if b then search_transform_infos src dst i n sh1 [] False else Inr (src, [])) of
              Inl e \<Rightarrow> Inl e
            | Inr (cur, infos) \<Rightarrow>
                (case search_transform_infos cur dst 0 n sh1 infos True of
                   Inl e \<Rightarrow> Inl e
                 | Inr (_, infos') \<Rightarrow> Inr infos'))
       = plan_triples
           (case (if b then search_transform_infos src dst i n sh2 [] False else Inr (src, [])) of
              Inl e \<Rightarrow> Inl e
            | Inr (cur, infos) \<Rightarrow>
                (case search_transform_infos cur dst 0 n sh2 infos True of
                   Inl e \<Rightarrow> Inl e
                 | Inr (_, infos') \<Rightarrow> Inr infos'))"
proof -
  let ?first = "\<lambda>sh. if b then search_transform_infos src dst i n sh [] False else Inr (src, [])"
  have first: "search_triples (?first sh1) = search_triples (?first sh2)"
    using search_shapes_irrelevant [OF len, of "[]" "[]" src dst i n False] by simp
  show ?thesis
  proof (cases "?first sh1")
    case (Inl e)
    with first have "search_triples (?first sh2) = Inl e" by simp
    then have "?first sh2 = Inl e" by (simp only: search_triples_eq_Inl)
    with Inl show ?thesis by simp
  next
    case (Inr r)
    obtain cur infos1 where r: "r = (cur, infos1)" by (cases r)
    from first Inr r obtain infos2 where
      second: "?first sh2 = Inr (cur, infos2)" and tr: "map step_triple infos1 = map step_triple infos2"
      by (auto simp: search_triples_eq_Inr dest!: sym [of "Inr _"])
    have "search_triples (search_transform_infos cur dst 0 n sh1 infos1 True) =
          search_triples (search_transform_infos cur dst 0 n sh2 infos2 True)"
      by (rule search_shapes_irrelevant [OF len tr])
    then have "plan_triples (case search_transform_infos cur dst 0 n sh1 infos1 True of
                   Inl e \<Rightarrow> Inl e | Inr (_, infos') \<Rightarrow> Inr infos')
             = plan_triples (case search_transform_infos cur dst 0 n sh2 infos2 True of
                   Inl e \<Rightarrow> Inl e | Inr (_, infos') \<Rightarrow> Inr infos')"
      by (auto simp: plan_triples_def search_triples_def split: sum.splits)
    with Inr r second show ?thesis by simp
  qed
qed

lemma gen_with_coordinate:
  "gen_transform_infos (with_coordinate c src_spec) (with_coordinate c dst_spec) =
     (if ndim (mesh src_spec) = 1 then
        (case (placements src_spec, placements dst_spec) of
           (s # _, d # _) \<Rightarrow>
             Inr [\<lparr>mesh_dim = 0, src_dst_placements = (s, d), logical_shape = shape src_spec\<rparr>]
         | _ \<Rightarrow> Inl IndexError)
      else
        (case logical_shape_loop (mesh src_spec) c 0
                (zip (placements src_spec) (placements dst_spec)) [shape src_spec] of
           Inl e \<Rightarrow> Inl e
         | Inr shapes \<Rightarrow>
             (case num_shards src_spec of
                Inl e \<Rightarrow> Inl e
              | Inr k \<Rightarrow>
                  (case (if k > 1 then
                           search_transform_infos (placements src_spec) (placements dst_spec)
                             (ndim (mesh src_spec) - 1) (ndim (mesh src_spec)) shapes [] False
                         else Inr (placements src_spec, [])) of
                     Inl e \<Rightarrow> Inl e
                   | Inr (cur, infos) \<Rightarrow>
                       (case search_transform_infos cur (placements dst_spec) 0
                               (ndim (mesh src_spec)) shapes infos True of
                          Inl e \<Rightarrow> Inl e
                        | Inr (_, infos') \<Rightarrow> Inr infos')))))"
proof -
  let ?m = "(mesh src_spec)\<lparr>coordinate := Some c\<rparr>"
  have sh: "mesh_shape ?m = mesh_shape (mesh src_spec)" by simp
  have m: "mesh (with_coordinate c src_spec) = ?m"
    by (simp add: with_coordinate_def)
  have co: "get_coordinate ?m = Some c" by (simp add: get_coordinate_def)
  have nd: "ndim ?m = ndim (mesh src_spec)" by (simp add: ndim_def)
  have ns: "num_shards (with_coordinate c src_spec) = num_shards src_spec"
    by (simp add: num_shards_def with_coordinate_def num_shards_loop_mesh [OF sh])
  have shp: "shape (with_coordinate c src_spec) = shape src_spec"
    by (simp add: shape_def with_coordinate_def)
  have pl: "placements (with_coordinate c s) = placements s" for s
    by (simp add: with_coordinate_def)
  show ?thesis
    unfolding gen_transform_infos_def Let_def m co nd ns shp pl logical_shape_loop_mesh [OF sh]
    by simp
qed

lemma plan_triples_coordinate:
  assumes "length c1 = length c2"
  shows "plan_triples (gen_transform_infos (with_coordinate c1 src_spec)
                         (with_coordinate c1 dst_spec))
       = plan_triples (gen_transform_infos (with_coordinate c2 src_spec)
                         (with_coordinate c2 dst_spec))"
proof (cases "ndim (mesh src_spec) = 1")
  case True
  then show ?thesis by (simp add: gen_with_coordinate)
next
  case False
  let ?loop = "\<lambda>c. logical_shape_loop (mesh src_spec) c 0
                 (zip (placements src_spec) (placements dst_spec)) [shape src_spec]"
  have rel: "rel_sum (=) (\<lambda>r1 r2. map length r1 = map length r2) (?loop c1) (?loop c2)"
    by (rule logical_shape_loop_coordinate [OF assms]) simp
  show ?thesis
  proof (cases "?loop c1")
    case (Inl e)
    with rel have "?loop c2 = Inl e" by (cases "?loop c2") simp_all
    with Inl False show ?thesis by (simp add: gen_with_coordinate)
  next
    case (Inr sh1)
    with rel obtain sh2 where sh2: "?loop c2 = Inr sh2" and ml: "map length sh1 = map length sh2"
      by (cases "?loop c2") simp_all
    from ml have len: "length sh1 = length sh2" by (rule map_eq_imp_length_eq)
    show ?thesis
    proof (cases "num_shards src_spec")
      case (Inl e)
      with Inr sh2 False show ?thesis by (simp add: gen_with_coordinate)
    next
      case k: (Inr k)
      from two_pass_triples [OF len] Inr sh2 False k show ?thesis
        by (simp add: gen_with_coordinate)
    qed
  qed
qed

text \<open>
  C5 (global plan consistency). For fixed source and destination specs, the planner run
  with two worker coordinates of the same length (in particular two coordinates of
  members of the mesh) either raises the same exception in both runs or returns two plans
  of the same length with the same \<open>(mesh_dim, from, to)\<close> at every index; only the
  logical shapes may differ.
\<close>

theorem plan_consistent_across_workers:
  assumes "length c1 = length c2"
  shows "plan_triples (gen_transform_infos (with_coordinate c1 src_spec)
                         (with_coordinate c1 dst_spec))
         = plan_triples (gen_transform_infos (with_coordinate c2 src_spec)
                           (with_coordinate c2 dst_spec))
       \<and> (\<forall>plan1 plan2.
            gen_transform_infos (with_coordinate c1 src_spec) (with_coordinate c1 dst_spec)
              = Inr plan1
            \<and> gen_transform_infos (with_coordinate c2 src_spec) (with_coordinate c2 dst_spec)
              = Inr plan2
            \<longrightarrow> length plan1 = length plan2
                \<and> (\<forall>k < length plan1.
                     mesh_dim (plan1 ! k) = mesh_dim (plan2 ! k)
                     \<and> src_dst_placements (plan1 ! k) = src_dst_placements (plan2 ! k)))"
proof (intro conjI allI impI)
  show eq: "plan_triples (gen_transform_infos (with_coordinate c1 src_spec)
                            (with_coordinate c1 dst_spec))
          = plan_triples (gen_transform_infos (with_coordinate c2 src_spec)
                            (with_coordinate c2 dst_spec))"
    by (rule plan_triples_coordinate [OF assms])
  fix plan1 plan2
  assume "gen_transform_infos (with_coordinate c1 src_spec) (with_coordinate c1 dst_spec)
            = Inr plan1
          \<and> gen_transform_infos (with_coordinate c2 src_spec) (with_coordinate c2 dst_spec)
            = Inr plan2"
  with eq have tr: "map step_triple plan1 = map step_triple plan2"
    by (simp add: plan_triples_def)
  then show len: "length plan1 = length plan2" by (rule map_eq_imp_length_eq)
  fix k
  assume k: "k < length plan1"
  with tr len have "step_triple (plan1 ! k) = step_triple (plan2 ! k)"
    by (metis nth_map)
  then show "mesh_dim (plan1 ! k) = mesh_dim (plan2 ! k)"
    and "src_dst_placements (plan1 ! k) = src_dst_placements (plan2 ! k)"
    by (simp_all add: step_triple_def prod_eq_iff)
qed

theorem plan_consistent_across_workers_witness:
  "length [0::nat, 1] = length [1::nat, 0]
   \<and> plan_triples (gen_transform_infos (with_coordinate [0, 1] (spec_5x4 [Shard 0, Shard 0]))
                     (with_coordinate [0, 1] (spec_5x4 [Replicate, Shard 0])))
     = plan_triples (gen_transform_infos (with_coordinate [1, 0] (spec_5x4 [Shard 0, Shard 0]))
                     (with_coordinate [1, 0] (spec_5x4 [Replicate, Shard 0])))
   \<and> gen_transform_infos (with_coordinate [0, 1] (spec_5x4 [Shard 0, Shard 0]))
        (with_coordinate [0, 1] (spec_5x4 [Replicate, Shard 0]))
     = Inr [\<lparr>mesh_dim = 1, src_dst_placements = (Shard 0, Replicate), logical_shape = [3, 4]\<rparr>,
            \<lparr>mesh_dim = 0, src_dst_placements = (Shard 0, Replicate), logical_shape = [5, 4]\<rparr>,
            \<lparr>mesh_dim = 1, src_dst_placements = (Replicate, Shard 0), logical_shape = [3, 4]\<rparr>]
   \<and> gen_transform_infos (with_coordinate [1, 0] (spec_5x4 [Shard 0, Shard 0]))
        (with_coordinate [1, 0] (spec_5x4 [Replicate, Shard 0]))
     = Inr [\<lparr>mesh_dim = 1, src_dst_placements = (Shard 0, Replicate), logical_shape = [2, 4]\<rparr>,
            \<lparr>mesh_dim = 0, src_dst_placements = (Shard 0, Replicate), logical_shape = [5, 4]\<rparr>,
            \<lparr>mesh_dim = 1, src_dst_placements = (Replicate, Shard 0), logical_shape = [2, 4]\<rparr>]"
proof -
  have len: "length [0::nat, 1] = length [1::nat, 0]" by simp
  have p1: "gen_transform_infos (with_coordinate [0, 1] (spec_5x4 [Shard 0, Shard 0]))
        (with_coordinate [0, 1] (spec_5x4 [Replicate, Shard 0]))
     = Inr [\<lparr>mesh_dim = 1, src_dst_placements = (Shard 0, Replicate), logical_shape = [3, 4]\<rparr>,
            \<lparr>mesh_dim = 0, src_dst_placements = (Shard 0, Replicate), logical_shape = [5, 4]\<rparr>,
            \<lparr>mesh_dim = 1, src_dst_placements = (Replicate, Shard 0), logical_shape = [3, 4]\<rparr>]"
    by (simp add: with_coordinate_def spec_5x4_def mesh_2x2_def gen_transform_infos_def
        get_coordinate_def ndim_def shape_def num_shards_def mesh_size_def
        local_shard_size_on_dim_def reshardable_from_src_to_dst_def Let_def
        search_transform_infos.simps)
  have p2: "gen_transform_infos (with_coordinate [1, 0] (spec_5x4 [Shard 0, Shard 0]))
        (with_coordinate [1, 0] (spec_5x4 [Replicate, Shard 0]))
     = Inr [\<lparr>mesh_dim = 1, src_dst_placements = (Shard 0, Replicate), logical_shape = [2, 4]\<rparr>,
            \<lparr>mesh_dim = 0, src_dst_placements = (Shard 0, Replicate), logical_shape = [5, 4]\<rparr>,
            \<lparr>mesh_dim = 1, src_dst_placements = (Replicate, Shard 0), logical_shape = [2, 4]\<rparr>]"
    by (simp add: with_coordinate_def spec_5x4_def mesh_2x2_def gen_transform_infos_def
        get_coordinate_def ndim_def shape_def num_shards_def mesh_size_def
        local_shard_size_on_dim_def reshardable_from_src_to_dst_def Let_def
        search_transform_infos.simps)
  from plan_consistent_across_workers [OF len, of "spec_5x4 [Shard 0, Shard 0]"
      "spec_5x4 [Replicate, Shard 0]"] len p1 p2
  show ?thesis by blast
qed

section \<open>Properties of the executor and the operator\<close>

text \<open>
  C6 (idempotence of redistribute). \<^verbatim>\<open>Redistribute.forward\<close> called with the placements
  the input already has returns a DTensor with the input's own local tensor, spec and
  \<^verbatim>\<open>requires_grad\<close>, and calls no placement method, hence no collective.
\<close>

theorem redistribute_same_placements_identity:
  "Redistribute_forward ops input device_mesh (placements (dt_spec input)) async_op =
     Inr (\<lparr>ctx_current_spec = dt_spec input, ctx_async_op = async_op\<rparr>,
          \<lparr>dt_local_tensor = dt_local_tensor input, dt_spec = dt_spec input,
           requires_grad = requires_grad input\<rparr>,
          [])"
  by (simp add: Redistribute_forward_def Let_def)

theorem redistribute_same_placements_identity_witness:
  "Redistribute_forward sym_ops
     \<lparr>dt_local_tensor = Leaf 0, dt_spec = spec_2x2 [Shard 0, Shard 0], requires_grad = True\<rparr>
     mesh_2x2 [Shard 0, Shard 0] False =
     Inr (\<lparr>ctx_current_spec = spec_2x2 [Shard 0, Shard 0], ctx_async_op = False\<rparr>,
          \<lparr>dt_local_tensor = Leaf 0, dt_spec = spec_2x2 [Shard 0, Shard 0],
           requires_grad = True\<rparr>,
          [])"
  using redistribute_same_placements_identity [of sym_ops
      "\<lparr>dt_local_tensor = Leaf 0, dt_spec = spec_2x2 [Shard 0, Shard 0], requires_grad = True\<rparr>"
      mesh_2x2 False]
  by (simp add: spec_2x2_def)

subsection \<open>The backward flag\<close>

lemma redistribute_loop_append:
  "redistribute_loop ops m c b st (xs @ ys) =
     (case redistribute_loop ops m c b st xs of
        Inl e \<Rightarrow> Inl e
      | Inr st' \<Rightarrow> redistribute_loop ops m c b st' ys)"
  by (induction xs arbitrary: st) (auto split: sum.splits)

lemma redistribute_local_tensor_plan:
  assumes "mesh target_spec = mesh current_spec"
    and "get_coordinate (mesh current_spec) = Some c"
    and "gen_transform_infos current_spec target_spec = Inr plan"
  shows "redistribute_local_tensor ops x current_spec target_spec async_op is_backward =
           (case redistribute_loop ops (mesh current_spec) c is_backward
                   \<lparr>local_tensor = x, new_local_tensor = None, calls = []\<rparr> plan of
              Inl e \<Rightarrow> Inl e
            | Inr st \<Rightarrow>
                (case new_local_tensor st of
                   None \<Rightarrow> Inl AssertionError
                 | Some t \<Rightarrow>
                     Inr \<lparr>out_tensor = awaited ops async_op t, walked = plan,
                          out_calls = calls st\<rparr>))"
  unfolding redistribute_local_tensor_def awaited_def using assms by simp

lemma step_shard_partial_forward:
  "i < length (mesh_shape m)
     \<Longrightarrow> redistribute_step ops m c False st
           \<lparr>mesh_dim = i, src_dst_placements = (Shard d, Partial op), logical_shape = ls\<rparr>
         = Inl RuntimeError"
  by (simp add: redistribute_step_def transition_def mesh_size_def)

lemma step_shard_partial_backward:
  "i < length (mesh_shape m)
     \<Longrightarrow> redistribute_step ops m c True st
           \<lparr>mesh_dim = i, src_dst_placements = (Shard d, Partial op), logical_shape = ls\<rparr>
         = Inr \<lparr>local_tensor = to_replicate_tensor ops d (local_tensor st) m i ls,
                new_local_tensor = Some (to_replicate_tensor ops d (local_tensor st) m i ls),
                calls = calls st @ [ToReplicateTensor i]\<rparr>"
  by (simp add: redistribute_step_def transition_def mesh_size_def)

lemma step_shard_replicate:
  "i < length (mesh_shape m)
     \<Longrightarrow> redistribute_step ops m c b st
           \<lparr>mesh_dim = i, src_dst_placements = (Shard d, Replicate), logical_shape = ls\<rparr>
         = Inr \<lparr>local_tensor = to_replicate_tensor ops d (local_tensor st) m i ls,
                new_local_tensor = Some (to_replicate_tensor ops d (local_tensor st) m i ls),
                calls = calls st @ [ToReplicateTensor i]\<rparr>"
  by (simp add: redistribute_step_def transition_def mesh_size_def)

lemma step_replicate_partial_backward:
  "i < length (mesh_shape m)
     \<Longrightarrow> redistribute_step ops m c True st
           \<lparr>mesh_dim = i, src_dst_placements = (Replicate, Partial op), logical_shape = ls\<rparr>
         = Inr \<lparr>local_tensor = local_tensor st, new_local_tensor = Some (local_tensor st),
                calls = calls st\<rparr>"
  by (simp add: redistribute_step_def transition_def mesh_size_def)

lemma step_replicate_partial_forward:
  "i < length (mesh_shape m)
     \<Longrightarrow> redistribute_step ops m c False st
           \<lparr>mesh_dim = i, src_dst_placements = (Replicate, Partial op), logical_shape = ls\<rparr>
         = Inr \<lparr>local_tensor = partition_value ops op (local_tensor st) m i,
                new_local_tensor = Some (partition_value ops op (local_tensor st) m i),
                calls = calls st @ [PartitionValue i]\<rparr>"
  by (simp add: redistribute_step_def transition_def mesh_size_def)

text \<open>
  The executor as a whole, on any mesh: the loop has walked the steps \<open>pre\<close> of the plan
  and reaches the step in question.
\<close>

lemma executor_shard_partial_forward:
  assumes "mesh target_spec = mesh current_spec"
    and "get_coordinate (mesh current_spec) = Some c"
    and "gen_transform_infos current_spec target_spec =
           Inr (pre @ \<lparr>mesh_dim = i, src_dst_placements = (Shard d, Partial op),
                       logical_shape = ls\<rparr> # rest)"
    and "redistribute_loop ops (mesh current_spec) c False
           \<lparr>local_tensor = x, new_local_tensor = None, calls = []\<rparr> pre = Inr st"
    and "i < length (mesh_shape (mesh current_spec))"
  shows "redistribute_local_tensor ops x current_spec target_spec async_op False
           = Inl RuntimeError"
  using assms(4,5)
  by (simp add: redistribute_local_tensor_plan [OF assms(1-3)] redistribute_loop_append
      step_shard_partial_forward)

lemma executor_shard_partial_backward:
  assumes "mesh target_spec = mesh current_spec"
    and "get_coordinate (mesh current_spec) = Some c"
    and "gen_transform_infos current_spec target_spec =
           Inr (pre @ [\<lparr>mesh_dim = i, src_dst_placements = (Shard d, Partial op),
                        logical_shape = ls\<rparr>])"
    and "redistribute_loop ops (mesh current_spec) c True
           \<lparr>local_tensor = x, new_local_tensor = None, calls = []\<rparr> pre = Inr st"
    and "i < length (mesh_shape (mesh current_spec))"
  shows "redistribute_local_tensor ops x current_spec target_spec async_op True =
           Inr \<lparr>out_tensor =
                  awaited ops async_op
                    (to_replicate_tensor ops d (local_tensor st) (mesh current_spec) i ls),
                walked = pre @ [\<lparr>mesh_dim = i, src_dst_placements = (Shard d, Partial op),
                                 logical_shape = ls\<rparr>],
                out_calls = calls st @ [ToReplicateTensor i]\<rparr>"
  using assms(4,5)
  by (simp add: redistribute_local_tensor_plan [OF assms(1-3)] redistribute_loop_append
      step_shard_partial_backward)

lemma executor_shard_replicate:
  assumes "mesh target_spec = mesh current_spec"
    and "get_coordinate (mesh current_spec) = Some c"
    and "gen_transform_infos current_spec target_spec =
           Inr (pre @ [\<lparr>mesh_dim = i, src_dst_placements = (Shard d, Replicate),
                        logical_shape = ls\<rparr>])"
    and "redistribute_loop ops (mesh current_spec) c b
           \<lparr>local_tensor = x, new_local_tensor = None, calls = []\<rparr> pre = Inr st"
    and "i < length (mesh_shape (mesh current_spec))"
  shows "redistribute_local_tensor ops x current_spec target_spec async_op b =
           Inr \<lparr>out_tensor =
                  awaited ops async_op
                    (to_replicate_tensor ops d (local_tensor st) (mesh current_spec) i ls),
                walked = pre @ [\<lparr>mesh_dim = i, src_dst_placements = (Shard d, Replicate),
                                 logical_shape = ls\<rparr>],
                out_calls = calls st @ [ToReplicateTensor i]\<rparr>"
  using assms(4,5)
  by (simp add: redistribute_local_tensor_plan [OF assms(1-3)] redistribute_loop_append
      step_shard_replicate)

lemma executor_replicate_partial_backward:
  assumes "mesh target_spec = mesh current_spec"
    and "get_coordinate (mesh current_spec) = Some c"
    and "gen_transform_infos current_spec target_spec =
           Inr (pre @ [\<lparr>mesh_dim = i, src_dst_placements = (Replicate, Partial op),
                        logical_shape = ls\<rparr>])"
    and "redistribute_loop ops (mesh current_spec) c True
           \<lparr>local_tensor = x, new_local_tensor = None, calls = []\<rparr> pre = Inr st"
    and "i < length (mesh_shape (mesh current_spec))"
  shows "redistribute_local_tensor ops x current_spec target_spec async_op True =
           Inr \<lparr>out_tensor = awaited ops async_op (local_tensor st),
                walked = pre @ [\<lparr>mesh_dim = i, src_dst_placements = (Replicate, Partial op),
                                 logical_shape = ls\<rparr>],
                out_calls = calls st\<rparr>"
  using assms(4,5)
  by (simp add: redistribute_local_tensor_plan [OF assms(1-3)] redistribute_loop_append
      step_replicate_partial_backward)

lemma executor_replicate_partial_forward:
  assumes "mesh target_spec = mesh current_spec"
    and "get_coordinate (mesh current_spec) = Some c"
    and "gen_transform_infos current_spec target_spec =
           Inr (pre @ [\<lparr>mesh_dim = i, src_dst_placements = (Replicate, Partial op),
                        logical_shape = ls\<rparr>])"
    and "redistribute_loop ops (mesh current_spec) c False
           \<lparr>local_tensor = x, new_local_tensor = None, calls = []\<rparr> pre = Inr st"
    and "i < length (mesh_shape (mesh current_spec))"
  shows "redistribute_local_tensor ops x current_spec target_spec async_op False =
           Inr \<lparr>out_tensor =
                  awaited ops async_op
                    (partition_value ops op (local_tensor st) (mesh current_spec) i),
                walked = pre @ [\<lparr>mesh_dim = i, src_dst_placements = (Replicate, Partial op),
                                 logical_shape = ls\<rparr>],
                out_calls = calls st @ [PartitionValue i]\<rparr>"
  using assms(4,5)
  by (simp add: redistribute_local_tensor_plan [OF assms(1-3)] redistribute_loop_append
      step_replicate_partial_forward)

text \<open>On a one-dimensional mesh the plan is the single step.\<close>

lemma plan_1d:
  assumes "get_coordinate (mesh current_spec) = Some c"
    and "ndim (mesh current_spec) = 1"
    and "placements current_spec = [p]" and "placements target_spec = [q]"
  shows "gen_transform_infos current_spec target_spec =
           Inr ([] @ [\<lparr>mesh_dim = 0, src_dst_placements = (p, q),
                       logical_shape = shape current_spec\<rparr>])"
  using assms by (simp add: gen_transform_infos_def Let_def)


lemma plan_2x2_shard_partial:
  "gen_transform_infos (spec_2x2 [Shard 0, Replicate]) (spec_2x2 [Partial ''sum'', Replicate]) =
     Inr ([] @ [\<lparr>mesh_dim = 0, src_dst_placements = (Shard 0, Partial ''sum''),
                 logical_shape = [4, 4]\<rparr>])"
  by (simp add: spec_2x2_def mesh_2x2_def gen_transform_infos_def get_coordinate_def ndim_def
      shape_def num_shards_def mesh_size_def local_shard_size_on_dim_def
      reshardable_from_src_to_dst_def Let_def search_transform_infos.simps)

text \<open>
  C7 (the backward flag in the executor). For one iteration of the executor's loop on a
  mesh dim of the mesh: with \<open>is_backward\<close> false a \<open>Shard \<rightarrow> Partial\<close> step raises
  \<^verbatim>\<open>RuntimeError\<close>; with \<open>is_backward\<close> true it calls \<^verbatim>\<open>_to_replicate_tensor\<close>,
  exactly as the \<open>Shard \<rightarrow> Replicate\<close> step does, and a \<open>Replicate \<rightarrow> Partial\<close> step keeps
  the local tensor and calls nothing, where the forward direction calls
  \<^verbatim>\<open>_partition_value\<close>. For \<^verbatim>\<open>redistribute_local_tensor\<close> as a whole, on a member
  worker and two specs on one mesh: when the plan reaches a \<open>Shard \<rightarrow> Partial\<close> step
  after steps that ran, the forward call raises \<^verbatim>\<open>RuntimeError\<close>; when the plan ends
  with that step, the backward call returns the all-gathered tensor and logs the
  \<^verbatim>\<open>_to_replicate_tensor\<close> call, as the call whose plan ends with \<open>Shard \<rightarrow> Replicate\<close>
  does; when the plan ends with \<open>Replicate \<rightarrow> Partial\<close>, the backward call returns the
  tensor it had and logs nothing, and the forward call partitions. On a one-dimensional
  mesh, where the plan is that single step, this determines the call for the placements
  \<open>[Shard d]\<close> or \<open>[Replicate]\<close> against \<open>[Partial op]\<close>.
\<close>

theorem backward_flag_transitions:
  "(i < length (mesh_shape device_mesh) \<longrightarrow>
      redistribute_step ops device_mesh coord False st
          \<lparr>mesh_dim = i, src_dst_placements = (Shard d, Partial op), logical_shape = ls\<rparr>
        = Inl RuntimeError
      \<and> redistribute_step ops device_mesh coord True st
          \<lparr>mesh_dim = i, src_dst_placements = (Shard d, Partial op), logical_shape = ls\<rparr>
        = Inr \<lparr>local_tensor = to_replicate_tensor ops d (local_tensor st) device_mesh i ls,
               new_local_tensor =
                 Some (to_replicate_tensor ops d (local_tensor st) device_mesh i ls),
               calls = calls st @ [ToReplicateTensor i]\<rparr>
      \<and> redistribute_step ops device_mesh coord True st
          \<lparr>mesh_dim = i, src_dst_placements = (Shard d, Partial op), logical_shape = ls\<rparr>
        = redistribute_step ops device_mesh coord is_backward st
            \<lparr>mesh_dim = i, src_dst_placements = (Shard d, Replicate), logical_shape = ls\<rparr>
      \<and> redistribute_step ops device_mesh coord True st
          \<lparr>mesh_dim = i, src_dst_placements = (Replicate, Partial op), logical_shape = ls\<rparr>
        = Inr \<lparr>local_tensor = local_tensor st, new_local_tensor = Some (local_tensor st),
               calls = calls st\<rparr>
      \<and> redistribute_step ops device_mesh coord False st
          \<lparr>mesh_dim = i, src_dst_placements = (Replicate, Partial op), logical_shape = ls\<rparr>
        = Inr \<lparr>local_tensor = partition_value ops op (local_tensor st) device_mesh i,
               new_local_tensor = Some (partition_value ops op (local_tensor st) device_mesh i),
               calls = calls st @ [PartitionValue i]\<rparr>)
   \<and> (mesh target_spec = mesh current_spec
        \<and> get_coordinate (mesh current_spec) = Some c
        \<and> k < length (mesh_shape (mesh current_spec)) \<longrightarrow>
      (gen_transform_infos current_spec target_spec =
           Inr (pre @ \<lparr>mesh_dim = k, src_dst_placements = (Shard d, Partial op),
                       logical_shape = ls\<rparr> # rest)
         \<and> redistribute_loop ops (mesh current_spec) c False
             \<lparr>local_tensor = x, new_local_tensor = None, calls = []\<rparr> pre = Inr st
       \<longrightarrow> redistribute_local_tensor ops x current_spec target_spec async_op False
             = Inl RuntimeError)
      \<and> (gen_transform_infos current_spec target_spec =
           Inr (pre @ [\<lparr>mesh_dim = k, src_dst_placements = (Shard d, Partial op),
                        logical_shape = ls\<rparr>])
         \<and> redistribute_loop ops (mesh current_spec) c True
             \<lparr>local_tensor = x, new_local_tensor = None, calls = []\<rparr> pre = Inr st
       \<longrightarrow> redistribute_local_tensor ops x current_spec target_spec async_op True =
             Inr \<lparr>out_tensor =
                    awaited ops async_op
                      (to_replicate_tensor ops d (local_tensor st) (mesh current_spec) k ls),
                  walked = pre @ [\<lparr>mesh_dim = k, src_dst_placements = (Shard d, Partial op),
                                   logical_shape = ls\<rparr>],
                  out_calls = calls st @ [ToReplicateTensor k]\<rparr>)
      \<and> (gen_transform_infos current_spec target_spec =
           Inr (pre @ [\<lparr>mesh_dim = k, src_dst_placements = (Shard d, Replicate),
                        logical_shape = ls\<rparr>])
         \<and> redistribute_loop ops (mesh current_spec) c is_backward
             \<lparr>local_tensor = x, new_local_tensor = None, calls = []\<rparr> pre = Inr st
       \<longrightarrow> redistribute_local_tensor ops x current_spec target_spec async_op is_backward =
             Inr \<lparr>out_tensor =
                    awaited ops async_op
                      (to_replicate_tensor ops d (local_tensor st) (mesh current_spec) k ls),
                  walked = pre @ [\<lparr>mesh_dim = k, src_dst_placements = (Shard d, Replicate),
                                   logical_shape = ls\<rparr>],
                  out_calls = calls st @ [ToReplicateTensor k]\<rparr>)
      \<and> (gen_transform_infos current_spec target_spec =
           Inr (pre @ [\<lparr>mesh_dim = k, src_dst_placements = (Replicate, Partial op),
                        logical_shape = ls\<rparr>])
         \<and> redistribute_loop ops (mesh current_spec) c True
             \<lparr>local_tensor = x, new_local_tensor = None, calls = []\<rparr> pre = Inr st
       \<longrightarrow> redistribute_local_tensor ops x current_spec target_spec async_op True =
             Inr \<lparr>out_tensor = awaited ops async_op (local_tensor st),
                  walked = pre @ [\<lparr>mesh_dim = k, src_dst_placements = (Replicate, Partial op),
                                   logical_shape = ls\<rparr>],
                  out_calls = calls st\<rparr>)
      \<and> (gen_transform_infos current_spec target_spec =
           Inr (pre @ [\<lparr>mesh_dim = k, src_dst_placements = (Replicate, Partial op),
                        logical_shape = ls\<rparr>])
         \<and> redistribute_loop ops (mesh current_spec) c False
             \<lparr>local_tensor = x, new_local_tensor = None, calls = []\<rparr> pre = Inr st
       \<longrightarrow> redistribute_local_tensor ops x current_spec target_spec async_op False =
             Inr \<lparr>out_tensor =
                    awaited ops async_op
                      (partition_value ops op (local_tensor st) (mesh current_spec) k),
                  walked = pre @ [\<lparr>mesh_dim = k, src_dst_placements = (Replicate, Partial op),
                                   logical_shape = ls\<rparr>],
                  out_calls = calls st @ [PartitionValue k]\<rparr>))
   \<and> (mesh target_spec = mesh current_spec
        \<and> get_coordinate (mesh current_spec) = Some c
        \<and> ndim (mesh current_spec) = 1
        \<and> placements target_spec = [Partial op] \<longrightarrow>
      (placements current_spec = [Shard d] \<longrightarrow>
         redistribute_local_tensor ops x current_spec target_spec async_op False
           = Inl RuntimeError
         \<and> redistribute_local_tensor ops x current_spec target_spec async_op True =
             Inr \<lparr>out_tensor =
                    awaited ops async_op
                      (to_replicate_tensor ops d x (mesh current_spec) 0 (shape current_spec)),
                  walked = [\<lparr>mesh_dim = 0, src_dst_placements = (Shard d, Partial op),
                             logical_shape = shape current_spec\<rparr>],
                  out_calls = [ToReplicateTensor 0]\<rparr>
         \<and> redistribute_local_tensor ops x current_spec
               (target_spec\<lparr>placements := [Replicate]\<rparr>) async_op is_backward =
             Inr \<lparr>out_tensor =
                    awaited ops async_op
                      (to_replicate_tensor ops d x (mesh current_spec) 0 (shape current_spec)),
                  walked = [\<lparr>mesh_dim = 0, src_dst_placements = (Shard d, Replicate),
                             logical_shape = shape current_spec\<rparr>],
                  out_calls = [ToReplicateTensor 0]\<rparr>)
      \<and> (placements current_spec = [Replicate] \<longrightarrow>
         redistribute_local_tensor ops x current_spec target_spec async_op True =
             Inr \<lparr>out_tensor = awaited ops async_op x,
                  walked = [\<lparr>mesh_dim = 0, src_dst_placements = (Replicate, Partial op),
                             logical_shape = shape current_spec\<rparr>],
                  out_calls = []\<rparr>
         \<and> redistribute_local_tensor ops x current_spec target_spec async_op False =
             Inr \<lparr>out_tensor =
                    awaited ops async_op (partition_value ops op x (mesh current_spec) 0),
                  walked = [\<lparr>mesh_dim = 0, src_dst_placements = (Replicate, Partial op),
                             logical_shape = shape current_spec\<rparr>],
                  out_calls = [PartitionValue 0]\<rparr>))"
proof (intro conjI)
  show "i < length (mesh_shape device_mesh) \<longrightarrow>
      redistribute_step ops device_mesh coord False st
          \<lparr>mesh_dim = i, src_dst_placements = (Shard d, Partial op), logical_shape = ls\<rparr>
        = Inl RuntimeError
      \<and> redistribute_step ops device_mesh coord True st
          \<lparr>mesh_dim = i, src_dst_placements = (Shard d, Partial op), logical_shape = ls\<rparr>
        = Inr \<lparr>local_tensor = to_replicate_tensor ops d (local_tensor st) device_mesh i ls,
               new_local_tensor =
                 Some (to_replicate_tensor ops d (local_tensor st) device_mesh i ls),
               calls = calls st @ [ToReplicateTensor i]\<rparr>
      \<and> redistribute_step ops device_mesh coord True st
          \<lparr>mesh_dim = i, src_dst_placements = (Shard d, Partial op), logical_shape = ls\<rparr>
        = redistribute_step ops device_mesh coord is_backward st
            \<lparr>mesh_dim = i, src_dst_placements = (Shard d, Replicate), logical_shape = ls\<rparr>
      \<and> redistribute_step ops device_mesh coord True st
          \<lparr>mesh_dim = i, src_dst_placements = (Replicate, Partial op), logical_shape = ls\<rparr>
        = Inr \<lparr>local_tensor = local_tensor st, new_local_tensor = Some (local_tensor st),
               calls = calls st\<rparr>
      \<and> redistribute_step ops device_mesh coord False st
          \<lparr>mesh_dim = i, src_dst_placements = (Replicate, Partial op), logical_shape = ls\<rparr>
        = Inr \<lparr>local_tensor = partition_value ops op (local_tensor st) device_mesh i,
               new_local_tensor = Some (partition_value ops op (local_tensor st) device_mesh i),
               calls = calls st @ [PartitionValue i]\<rparr>"
    by (simp add: step_shard_partial_forward step_shard_partial_backward step_shard_replicate
        step_replicate_partial_backward step_replicate_partial_forward)
next
  show "mesh target_spec = mesh current_spec
        \<and> get_coordinate (mesh current_spec) = Some c
        \<and> k < length (mesh_shape (mesh current_spec)) \<longrightarrow>
      (gen_transform_infos current_spec target_spec =
           Inr (pre @ \<lparr>mesh_dim = k, src_dst_placements = (Shard d, Partial op),
                       logical_shape = ls\<rparr> # rest)
         \<and> redistribute_loop ops (mesh current_spec) c False
             \<lparr>local_tensor = x, new_local_tensor = None, calls = []\<rparr> pre = Inr st
       \<longrightarrow> redistribute_local_tensor ops x current_spec target_spec async_op False
             = Inl RuntimeError)
      \<and> (gen_transform_infos current_spec target_spec =
           Inr (pre @ [\<lparr>mesh_dim = k, src_dst_placements = (Shard d, Partial op),
                        logical_shape = ls\<rparr>])
         \<and> redistribute_loop ops (mesh current_spec) c True
             \<lparr>local_tensor = x, new_local_tensor = None, calls = []\<rparr> pre = Inr st
       \<longrightarrow> redistribute_local_tensor ops x current_spec target_spec async_op True =
             Inr \<lparr>out_tensor =
                    awaited ops async_op
                      (to_replicate_tensor ops d (local_tensor st) (mesh current_spec) k ls),
                  walked = pre @ [\<lparr>mesh_dim = k, src_dst_placements = (Shard d, Partial op),
                                   logical_shape = ls\<rparr>],
                  out_calls = calls st @ [ToReplicateTensor k]\<rparr>)
      \<and> (gen_transform_infos current_spec target_spec =
           Inr (pre @ [\<lparr>mesh_dim = k, src_dst_placements = (Shard d, Replicate),
                        logical_shape = ls\<rparr>])
         \<and> redistribute_loop ops (mesh current_spec) c is_backward
             \<lparr>local_tensor = x, new_local_tensor = None, calls = []\<rparr> pre = Inr st
       \<longrightarrow> redistribute_local_tensor ops x current_spec target_spec async_op is_backward =
             Inr \<lparr>out_tensor =
                    awaited ops async_op
                      (to_replicate_tensor ops d (local_tensor st) (mesh current_spec) k ls),
                  walked = pre @ [\<lparr>mesh_dim = k, src_dst_placements = (Shard d, Replicate),
                                   logical_shape = ls\<rparr>],
                  out_calls = calls st @ [ToReplicateTensor k]\<rparr>)
      \<and> (gen_transform_infos current_spec target_spec =
           Inr (pre @ [\<lparr>mesh_dim = k, src_dst_placements = (Replicate, Partial op),
                        logical_shape = ls\<rparr>])
         \<and> redistribute_loop ops (mesh current_spec) c True
             \<lparr>local_tensor = x, new_local_tensor = None, calls = []\<rparr> pre = Inr st
       \<longrightarrow> redistribute_local_tensor ops x current_spec target_spec async_op True =
             Inr \<lparr>out_tensor = awaited ops async_op (local_tensor st),
                  walked = pre @ [\<lparr>mesh_dim = k, src_dst_placements = (Replicate, Partial op),
                                   logical_shape = ls\<rparr>],
                  out_calls = calls st\<rparr>)
      \<and> (gen_transform_infos current_spec target_spec =
           Inr (pre @ [\<lparr>mesh_dim = k, src_dst_placements = (Replicate, Partial op),
                        logical_shape = ls\<rparr>])
         \<and> redistribute_loop ops (mesh current_spec) c False
             \<lparr>local_tensor = x, new_local_tensor = None, calls = []\<rparr> pre = Inr st
       \<longrightarrow> redistribute_local_tensor ops x current_spec target_spec async_op False =
             Inr \<lparr>out_tensor =
                    awaited ops async_op
                      (partition_value ops op (local_tensor st) (mesh current_spec) k),
                  walked = pre @ [\<lparr>mesh_dim = k, src_dst_placements = (Replicate, Partial op),
                                   logical_shape = ls\<rparr>],
                  out_calls = calls st @ [PartitionValue k]\<rparr>)"
    by (intro impI conjI; elim conjE)
       (erule (4) executor_shard_partial_forward executor_shard_partial_backward
          executor_shard_replicate executor_replicate_partial_backward
          executor_replicate_partial_forward)+
next
  show "mesh target_spec = mesh current_spec
        \<and> get_coordinate (mesh current_spec) = Some c
        \<and> ndim (mesh current_spec) = 1
        \<and> placements target_spec = [Partial op] \<longrightarrow>
      (placements current_spec = [Shard d] \<longrightarrow>
         redistribute_local_tensor ops x current_spec target_spec async_op False
           = Inl RuntimeError
         \<and> redistribute_local_tensor ops x current_spec target_spec async_op True =
             Inr \<lparr>out_tensor =
                    awaited ops async_op
                      (to_replicate_tensor ops d x (mesh current_spec) 0 (shape current_spec)),
                  walked = [\<lparr>mesh_dim = 0, src_dst_placements = (Shard d, Partial op),
                             logical_shape = shape current_spec\<rparr>],
                  out_calls = [ToReplicateTensor 0]\<rparr>
         \<and> redistribute_local_tensor ops x current_spec
               (target_spec\<lparr>placements := [Replicate]\<rparr>) async_op is_backward =
             Inr \<lparr>out_tensor =
                    awaited ops async_op
                      (to_replicate_tensor ops d x (mesh current_spec) 0 (shape current_spec)),
                  walked = [\<lparr>mesh_dim = 0, src_dst_placements = (Shard d, Replicate),
                             logical_shape = shape current_spec\<rparr>],
                  out_calls = [ToReplicateTensor 0]\<rparr>)
      \<and> (placements current_spec = [Replicate] \<longrightarrow>
         redistribute_local_tensor ops x current_spec target_spec async_op True =
             Inr \<lparr>out_tensor = awaited ops async_op x,
                  walked = [\<lparr>mesh_dim = 0, src_dst_placements = (Replicate, Partial op),
                             logical_shape = shape current_spec\<rparr>],
                  out_calls = []\<rparr>
         \<and> redistribute_local_tensor ops x current_spec target_spec async_op False =
             Inr \<lparr>out_tensor =
                    awaited ops async_op (partition_value ops op x (mesh current_spec) 0),
                  walked = [\<lparr>mesh_dim = 0, src_dst_placements = (Replicate, Partial op),
                             logical_shape = shape current_spec\<rparr>],
                  out_calls = [PartitionValue 0]\<rparr>)"
  proof (intro impI, elim conjE)
    assume me: "mesh target_spec = mesh current_spec"
      and co: "get_coordinate (mesh current_spec) = Some c"
      and one: "ndim (mesh current_spec) = 1"
      and tg: "placements target_spec = [Partial op]"
    from one have z: "0 < length (mesh_shape (mesh current_spec))" by (simp add: ndim_def)
    have l0: "redistribute_loop ops (mesh current_spec) c b
                \<lparr>local_tensor = x, new_local_tensor = None, calls = []\<rparr> []
              = Inr \<lparr>local_tensor = x, new_local_tensor = None, calls = []\<rparr>" for b
      by simp
    let ?r = "target_spec\<lparr>placements := [Replicate]\<rparr>"
    have mr: "mesh ?r = mesh current_spec" using me by simp
    show "(placements current_spec = [Shard d] \<longrightarrow>
         redistribute_local_tensor ops x current_spec target_spec async_op False
           = Inl RuntimeError
         \<and> redistribute_local_tensor ops x current_spec target_spec async_op True =
             Inr \<lparr>out_tensor =
                    awaited ops async_op
                      (to_replicate_tensor ops d x (mesh current_spec) 0 (shape current_spec)),
                  walked = [\<lparr>mesh_dim = 0, src_dst_placements = (Shard d, Partial op),
                             logical_shape = shape current_spec\<rparr>],
                  out_calls = [ToReplicateTensor 0]\<rparr>
         \<and> redistribute_local_tensor ops x current_spec
               (target_spec\<lparr>placements := [Replicate]\<rparr>) async_op is_backward =
             Inr \<lparr>out_tensor =
                    awaited ops async_op
                      (to_replicate_tensor ops d x (mesh current_spec) 0 (shape current_spec)),
                  walked = [\<lparr>mesh_dim = 0, src_dst_placements = (Shard d, Replicate),
                             logical_shape = shape current_spec\<rparr>],
                  out_calls = [ToReplicateTensor 0]\<rparr>)
      \<and> (placements current_spec = [Replicate] \<longrightarrow>
         redistribute_local_tensor ops x current_spec target_spec async_op True =
             Inr \<lparr>out_tensor = awaited ops async_op x,
                  walked = [\<lparr>mesh_dim = 0, src_dst_placements = (Replicate, Partial op),
                             logical_shape = shape current_spec\<rparr>],
                  out_calls = []\<rparr>
         \<and> redistribute_local_tensor ops x current_spec target_spec async_op False =
             Inr \<lparr>out_tensor =
                    awaited ops async_op (partition_value ops op x (mesh current_spec) 0),
                  walked = [\<lparr>mesh_dim = 0, src_dst_placements = (Replicate, Partial op),
                             logical_shape = shape current_spec\<rparr>],
                  out_calls = [PartitionValue 0]\<rparr>)"
    proof (intro conjI impI)
      assume cu: "placements current_spec = [Shard d]"
      note plan = plan_1d [OF co one cu tg]
      have planr: "gen_transform_infos current_spec ?r =
          Inr ([] @ [\<lparr>mesh_dim = 0, src_dst_placements = (Shard d, Replicate),
                      logical_shape = shape current_spec\<rparr>])"
        by (rule plan_1d [OF co one cu]) simp
      from executor_shard_partial_forward [OF me co plan l0 z]
      show "redistribute_local_tensor ops x current_spec target_spec async_op False
              = Inl RuntimeError"
        by simp
      from executor_shard_partial_backward [OF me co plan l0 z]
      show "redistribute_local_tensor ops x current_spec target_spec async_op True =
             Inr \<lparr>out_tensor =
                    awaited ops async_op
                      (to_replicate_tensor ops d x (mesh current_spec) 0 (shape current_spec)),
                  walked = [\<lparr>mesh_dim = 0, src_dst_placements = (Shard d, Partial op),
                             logical_shape = shape current_spec\<rparr>],
                  out_calls = [ToReplicateTensor 0]\<rparr>"
        by simp
      from executor_shard_replicate [OF mr co planr l0 z]
      show "redistribute_local_tensor ops x current_spec ?r async_op is_backward =
             Inr \<lparr>out_tensor =
                    awaited ops async_op
                      (to_replicate_tensor ops d x (mesh current_spec) 0 (shape current_spec)),
                  walked = [\<lparr>mesh_dim = 0, src_dst_placements = (Shard d, Replicate),
                             logical_shape = shape current_spec\<rparr>],
                  out_calls = [ToReplicateTensor 0]\<rparr>"
        by simp
    next
      assume cu: "placements current_spec = [Replicate]"
      note plan = plan_1d [OF co one cu tg]
      from executor_replicate_partial_backward [OF me co plan l0 z]
      show "redistribute_local_tensor ops x current_spec target_spec async_op True =
             Inr \<lparr>out_tensor = awaited ops async_op x,
                  walked = [\<lparr>mesh_dim = 0, src_dst_placements = (Replicate, Partial op),
                             logical_shape = shape current_spec\<rparr>],
                  out_calls = []\<rparr>"
        by simp
      from executor_replicate_partial_forward [OF me co plan l0 z]
      show "redistribute_local_tensor ops x current_spec target_spec async_op False =
             Inr \<lparr>out_tensor =
                    awaited ops async_op (partition_value ops op x (mesh current_spec) 0),
                  walked = [\<lparr>mesh_dim = 0, src_dst_placements = (Replicate, Partial op),
                             logical_shape = shape current_spec\<rparr>],
                  out_calls = [PartitionValue 0]\<rparr>"
        by simp
    qed
  qed
qed


theorem backward_flag_transitions_witness:
  "(0::nat) < length (mesh_shape mesh_2x2)
   \<and> redistribute_step sym_ops mesh_2x2 [0, 1] False
        \<lparr>local_tensor = Leaf 0, new_local_tensor = None, calls = []\<rparr>
        \<lparr>mesh_dim = 0, src_dst_placements = (Shard 0, Partial ''sum''), logical_shape = [4, 4]\<rparr>
      = Inl RuntimeError
   \<and> redistribute_step sym_ops mesh_2x2 [0, 1] True
        \<lparr>local_tensor = Leaf 0, new_local_tensor = None, calls = []\<rparr>
        \<lparr>mesh_dim = 0, src_dst_placements = (Shard 0, Partial ''sum''), logical_shape = [4, 4]\<rparr>
      = Inr \<lparr>local_tensor = Op (ToReplicateTensor 0) (Leaf 0),
             new_local_tensor = Some (Op (ToReplicateTensor 0) (Leaf 0)),
             calls = [ToReplicateTensor 0]\<rparr>
   \<and> redistribute_step sym_ops mesh_2x2 [0, 1] True
        \<lparr>local_tensor = Leaf 0, new_local_tensor = None, calls = []\<rparr>
        \<lparr>mesh_dim = 0, src_dst_placements = (Replicate, Partial ''sum''), logical_shape = [4, 4]\<rparr>
      = Inr \<lparr>local_tensor = Leaf 0, new_local_tensor = Some (Leaf 0), calls = []\<rparr>
   \<and> mesh (spec_1d [Partial ''sum'']) = mesh (spec_1d [Shard 0])
   \<and> get_coordinate (mesh (spec_1d [Shard 0])) = Some [2]
   \<and> ndim (mesh (spec_1d [Shard 0])) = 1
   \<and> redistribute_local_tensor sym_ops (Leaf 0) (spec_1d [Shard 0]) (spec_1d [Partial ''sum''])
        False False
      = Inl RuntimeError
   \<and> redistribute_local_tensor sym_ops (Leaf 0) (spec_1d [Shard 0]) (spec_1d [Partial ''sum''])
        False True
      = Inr \<lparr>out_tensor = Waited (Op (ToReplicateTensor 0) (Leaf 0)),
             walked = [\<lparr>mesh_dim = 0, src_dst_placements = (Shard 0, Partial ''sum''),
                        logical_shape = [8]\<rparr>],
             out_calls = [ToReplicateTensor 0]\<rparr>
   \<and> redistribute_local_tensor sym_ops (Leaf 0) (spec_1d [Shard 0]) (spec_1d [Replicate])
        False False
      = Inr \<lparr>out_tensor = Waited (Op (ToReplicateTensor 0) (Leaf 0)),
             walked = [\<lparr>mesh_dim = 0, src_dst_placements = (Shard 0, Replicate),
                        logical_shape = [8]\<rparr>],
             out_calls = [ToReplicateTensor 0]\<rparr>
   \<and> redistribute_local_tensor sym_ops (Leaf 0) (spec_1d [Replicate])
        (spec_1d [Partial ''sum'']) False True
      = Inr \<lparr>out_tensor = Leaf 0,
             walked = [\<lparr>mesh_dim = 0, src_dst_placements = (Replicate, Partial ''sum''),
                        logical_shape = [8]\<rparr>],
             out_calls = []\<rparr>
   \<and> gen_transform_infos (spec_2x2 [Shard 0, Replicate]) (spec_2x2 [Partial ''sum'', Replicate])
      = Inr [\<lparr>mesh_dim = 0, src_dst_placements = (Shard 0, Partial ''sum''),
               logical_shape = [4, 4]\<rparr>]
   \<and> redistribute_local_tensor sym_ops (Leaf 0) (spec_2x2 [Shard 0, Replicate])
        (spec_2x2 [Partial ''sum'', Replicate]) False False
      = Inl RuntimeError
   \<and> redistribute_local_tensor sym_ops (Leaf 0) (spec_2x2 [Shard 0, Replicate])
        (spec_2x2 [Partial ''sum'', Replicate]) False True
      = Inr \<lparr>out_tensor = Waited (Op (ToReplicateTensor 0) (Leaf 0)),
             walked = [\<lparr>mesh_dim = 0, src_dst_placements = (Shard 0, Partial ''sum''),
                        logical_shape = [4, 4]\<rparr>],
             out_calls = [ToReplicateTensor 0]\<rparr>"
proof -
  let ?init = "\<lparr>local_tensor = Leaf 0, new_local_tensor = None, calls = []\<rparr>"
  have h: "(0::nat) < length (mesh_shape mesh_2x2)" by (simp add: mesh_2x2_def)
  have me: "mesh (spec_1d [Partial ''sum'']) = mesh (spec_1d ps)" for ps
    by (simp add: spec_1d_def)
  have co: "get_coordinate (mesh (spec_1d ps)) = Some [2]" for ps
    by (simp add: spec_1d_def mesh_1d_def get_coordinate_def)
  have one: "ndim (mesh (spec_1d ps)) = 1" for ps
    by (simp add: spec_1d_def mesh_1d_def ndim_def)
  have pl: "placements (spec_1d ps) = ps" "shape (spec_1d ps) = [8]" for ps
    by (simp_all add: spec_1d_def shape_def)
  have upd: "(spec_1d [Partial ''sum''])\<lparr>placements := [Replicate]\<rparr> = spec_1d [Replicate]"
    by (simp add: spec_1d_def)
  have ev: "awaited sym_ops False (Leaf 0) = Leaf 0"
    "awaited sym_ops False (to_replicate_tensor sym_ops d (Leaf 0) m 0 ls)
       = Waited (Op (ToReplicateTensor 0) (Leaf 0))" for d m ls
    by (simp_all add: awaited_def sym_ops_def)
  have me2: "mesh (spec_2x2 [Partial ''sum'', Replicate]) = mesh (spec_2x2 [Shard 0, Replicate])"
    by (simp add: spec_2x2_def)
  have co2: "get_coordinate (mesh (spec_2x2 [Shard 0, Replicate])) = Some [0, 1]"
    by (simp add: spec_2x2_def mesh_2x2_def get_coordinate_def)
  have k2: "0 < length (mesh_shape (mesh (spec_2x2 [Shard 0, Replicate])))"
    by (simp add: spec_2x2_def mesh_2x2_def)
  have l0: "redistribute_loop sym_ops (mesh (spec_2x2 [Shard 0, Replicate])) [0, 1] b ?init []
              = Inr ?init" for b
    by simp
  note step = backward_flag_transitions [where ops = sym_ops and device_mesh = mesh_2x2
      and coord = "[0, 1]" and st = ?init and i = 0 and d = 0 and op = "''sum''"
      and ls = "[4, 4]" and is_backward = False]
  note shard1 = backward_flag_transitions [where ops = sym_ops and x = "Leaf 0"
      and current_spec = "spec_1d [Shard 0]" and target_spec = "spec_1d [Partial ''sum'']"
      and c = "[2]" and d = 0 and op = "''sum''" and async_op = False and is_backward = False]
  note repl1 = backward_flag_transitions [where ops = sym_ops and x = "Leaf 0"
      and current_spec = "spec_1d [Replicate]" and target_spec = "spec_1d [Partial ''sum'']"
      and c = "[2]" and op = "''sum''" and async_op = False]
  note plan2 = backward_flag_transitions [where ops = sym_ops and x = "Leaf 0"
      and current_spec = "spec_2x2 [Shard 0, Replicate]"
      and target_spec = "spec_2x2 [Partial ''sum'', Replicate]"
      and c = "[0, 1]" and d = 0 and op = "''sum''" and async_op = False and k = 0
      and pre = "[]" and rest = "[]" and ls = "[4, 4]" and st = ?init]
  from step h have s1: "redistribute_step sym_ops mesh_2x2 [0, 1] False ?init
        \<lparr>mesh_dim = 0, src_dst_placements = (Shard 0, Partial ''sum''), logical_shape = [4, 4]\<rparr>
      = Inl RuntimeError"
    and s2: "redistribute_step sym_ops mesh_2x2 [0, 1] True ?init
        \<lparr>mesh_dim = 0, src_dst_placements = (Shard 0, Partial ''sum''), logical_shape = [4, 4]\<rparr>
      = Inr \<lparr>local_tensor = Op (ToReplicateTensor 0) (Leaf 0),
             new_local_tensor = Some (Op (ToReplicateTensor 0) (Leaf 0)),
             calls = [ToReplicateTensor 0]\<rparr>"
    and s3: "redistribute_step sym_ops mesh_2x2 [0, 1] True ?init
        \<lparr>mesh_dim = 0, src_dst_placements = (Replicate, Partial ''sum''), logical_shape = [4, 4]\<rparr>
      = Inr \<lparr>local_tensor = Leaf 0, new_local_tensor = Some (Leaf 0), calls = []\<rparr>"
    by (simp_all add: sym_ops_def)
  from shard1 me co one pl upd ev
  have a1: "redistribute_local_tensor sym_ops (Leaf 0) (spec_1d [Shard 0])
        (spec_1d [Partial ''sum'']) False False = Inl RuntimeError"
    and a2: "redistribute_local_tensor sym_ops (Leaf 0) (spec_1d [Shard 0])
        (spec_1d [Partial ''sum'']) False True
      = Inr \<lparr>out_tensor = Waited (Op (ToReplicateTensor 0) (Leaf 0)),
             walked = [\<lparr>mesh_dim = 0, src_dst_placements = (Shard 0, Partial ''sum''),
                        logical_shape = [8]\<rparr>],
             out_calls = [ToReplicateTensor 0]\<rparr>"
    and a3: "redistribute_local_tensor sym_ops (Leaf 0) (spec_1d [Shard 0]) (spec_1d [Replicate])
        False False
      = Inr \<lparr>out_tensor = Waited (Op (ToReplicateTensor 0) (Leaf 0)),
             walked = [\<lparr>mesh_dim = 0, src_dst_placements = (Shard 0, Replicate),
                        logical_shape = [8]\<rparr>],
             out_calls = [ToReplicateTensor 0]\<rparr>"
    by simp_all
  from repl1 me co one pl ev
  have a4: "redistribute_local_tensor sym_ops (Leaf 0) (spec_1d [Replicate])
        (spec_1d [Partial ''sum'']) False True
      = Inr \<lparr>out_tensor = Leaf 0,
             walked = [\<lparr>mesh_dim = 0, src_dst_placements = (Replicate, Partial ''sum''),
                        logical_shape = [8]\<rparr>],
             out_calls = []\<rparr>"
    by simp
  from plan_2x2_shard_partial
  have p: "gen_transform_infos (spec_2x2 [Shard 0, Replicate])
             (spec_2x2 [Partial ''sum'', Replicate])
      = Inr [\<lparr>mesh_dim = 0, src_dst_placements = (Shard 0, Partial ''sum''),
               logical_shape = [4, 4]\<rparr>]"
    by simp
  from plan2 me2 co2 k2 plan_2x2_shard_partial l0 ev
  have b1: "redistribute_local_tensor sym_ops (Leaf 0) (spec_2x2 [Shard 0, Replicate])
        (spec_2x2 [Partial ''sum'', Replicate]) False False = Inl RuntimeError"
    and b2: "redistribute_local_tensor sym_ops (Leaf 0) (spec_2x2 [Shard 0, Replicate])
        (spec_2x2 [Partial ''sum'', Replicate]) False True
      = Inr \<lparr>out_tensor = Waited (Op (ToReplicateTensor 0) (Leaf 0)),
             walked = [\<lparr>mesh_dim = 0, src_dst_placements = (Shard 0, Partial ''sum''),
                        logical_shape = [4, 4]\<rparr>],
             out_calls = [ToReplicateTensor 0]\<rparr>"
    by simp_all
  from h s1 s2 s3 me [of "[Shard 0]"] co [of "[Shard 0]"] one [of "[Shard 0]"] a1 a2 a3 a4 p b1 b2
  show ?thesis by blast
qed


subsection \<open>The gradient's spec, and workers outside the mesh\<close>

text \<open>
  C8 (backward normalization). When \<^verbatim>\<open>Redistribute.backward\<close> returns, the placements
  of the returned gradient's spec are those of the forward's source spec with every
  \<open>Partial\<close> replaced by \<open>Replicate\<close> and every other placement kept; none of them is a
  \<open>Partial\<close>.
\<close>

theorem backward_normalizes_partial:
  assumes "Redistribute_backward ops c grad_output = Inr (g, cs)"
  shows "placements (dt_spec g) =
           map (\<lambda>p. if is_partial p then Replicate else p) (placements (ctx_current_spec c))
       \<and> length (placements (dt_spec g)) = length (placements (ctx_current_spec c))
       \<and> (\<forall>i < length (placements (ctx_current_spec c)).
            \<not> is_partial (placements (dt_spec g) ! i)
            \<and> (is_partial (placements (ctx_current_spec c) ! i)
                 \<longrightarrow> placements (dt_spec g) ! i = Replicate)
            \<and> (\<not> is_partial (placements (ctx_current_spec c) ! i)
                 \<longrightarrow> placements (dt_spec g) ! i = placements (ctx_current_spec c) ! i))"
proof -
  from assms have pl: "placements (dt_spec g) =
      map (\<lambda>p. if is_partial p then Replicate else p) (placements (ctx_current_spec c))"
    by (auto simp: Redistribute_backward_def Let_def split: sum.splits)
  then show ?thesis by simp
qed


lemma backward_2x2_partial:
  "Redistribute_backward sym_ops
     \<lparr>ctx_current_spec = spec_2x2 [Partial ''sum'', Replicate], ctx_async_op = False\<rparr>
     \<lparr>dt_local_tensor = Leaf 0, dt_spec = spec_2x2 [Replicate, Replicate], requires_grad = True\<rparr>
   = Inr (\<lparr>dt_local_tensor = Leaf 0, dt_spec = spec_2x2 [Replicate, Replicate],
           requires_grad = True\<rparr>, [])"
  by (simp add: Redistribute_backward_def redistribute_local_tensor_def spec_2x2_def mesh_2x2_def
      gen_transform_infos_def get_coordinate_def ndim_def shape_def num_shards_def mesh_size_def
      reshardable_from_src_to_dst_def Let_def search_transform_infos.simps
      redistribute_step_def transition_def sym_ops_def)

theorem backward_normalizes_partial_witness:
  "Redistribute_backward sym_ops
     \<lparr>ctx_current_spec = spec_2x2 [Partial ''sum'', Replicate], ctx_async_op = False\<rparr>
     \<lparr>dt_local_tensor = Leaf 0, dt_spec = spec_2x2 [Replicate, Replicate], requires_grad = True\<rparr>
   = Inr (\<lparr>dt_local_tensor = Leaf 0, dt_spec = spec_2x2 [Replicate, Replicate],
           requires_grad = True\<rparr>, [])
   \<and> placements (spec_2x2 [Replicate, Replicate]) =
       map (\<lambda>p. if is_partial p then Replicate else p) [Partial ''sum'', Replicate]"
  using backward_normalizes_partial [OF backward_2x2_partial] backward_2x2_partial
  by (simp add: spec_2x2_def)


text \<open>
  C9 (non-member worker). On a worker whose mesh coordinate is \<^verbatim>\<open>None\<close>,
  \<^verbatim>\<open>redistribute_local_tensor\<close> returns its input tensor for every two specs on that
  mesh, without planning any transform step and without calling any placement method.
\<close>

theorem non_member_identity:
  assumes "mesh target_spec = mesh current_spec"
    and "get_coordinate (mesh current_spec) = None"
  shows "redistribute_local_tensor ops x current_spec target_spec async_op is_backward =
           Inr \<lparr>out_tensor = x, walked = [], out_calls = []\<rparr>"
  using assms by (simp add: redistribute_local_tensor_def)

theorem non_member_identity_witness:
  "mesh (spec_outside [Replicate, Shard 0]) = mesh (spec_outside [Shard 0, Shard 0])
   \<and> get_coordinate (mesh (spec_outside [Shard 0, Shard 0])) = None
   \<and> redistribute_local_tensor sym_ops (Leaf 0) (spec_outside [Shard 0, Shard 0])
        (spec_outside [Replicate, Shard 0]) False False
      = Inr \<lparr>out_tensor = Leaf 0, walked = [], out_calls = []\<rparr>"
proof -
  have a: "mesh (spec_outside [Replicate, Shard 0]) = mesh (spec_outside [Shard 0, Shard 0])"
    by (simp add: spec_outside_def)
  have b: "get_coordinate (mesh (spec_outside [Shard 0, Shard 0])) = None"
    by (simp add: spec_outside_def mesh_outside_def get_coordinate_def)
  from non_member_identity [OF a b, of sym_ops "Leaf 0" False False] a b
  show ?thesis by blast
qed

subsection \<open>Equal placements passed to the executor directly\<close>

lemma num_shards_loop_returns:
  "i + length ps \<le> length (mesh_shape m) \<Longrightarrow> \<exists>k. num_shards_loop m i ps acc = Inr k"
  by (induction ps arbitrary: i acc) (simp_all add: mesh_size_def)

lemma logical_shape_loop_returns:
  "i + length zs = length (mesh_shape m) \<Longrightarrow> length sh = Suc i
     \<Longrightarrow> list_all (\<lambda>s. length s = r) sh
     \<Longrightarrow> list_all (\<lambda>p. case p of Shard d \<Rightarrow> d < r | _ \<Rightarrow> True) (map fst zs)
     \<Longrightarrow> length (mesh_shape m) \<le> length c
     \<Longrightarrow> list_all (\<lambda>n. 0 < n) (mesh_shape m)
     \<Longrightarrow> \<exists>sh'. logical_shape_loop m c i zs sh = Inr sh'"
proof (induction zs arbitrary: i sh)
  case Nil
  then show ?case by simp
next
  case (Cons z zs)
  obtain src dst where z: "z = (src, dst)" by (cases z)
  from Cons.prems(1) have i: "i < length (mesh_shape m)" and i': "Suc i + length zs = length (mesh_shape m)"
    by simp_all
  from Cons.prems(2) have ish: "i < length sh" by simp
  with Cons.prems(3) have rank: "length (sh ! i) = r" by (simp add: list_all_length)
  from Cons.prems(4) have rest: "list_all (\<lambda>p. case p of Shard d \<Rightarrow> d < r | _ \<Rightarrow> True) (map fst zs)"
    by simp
  have app: "\<exists>sh'. logical_shape_loop m c (Suc i) zs (sh @ [x]) = Inr sh'" if "length x = r" for x
    by (rule Cons.IH [OF i' _ _ rest Cons.prems(5,6)])
       (use Cons.prems(2,3) that in simp_all)
  show ?case
  proof (cases src)
    case Replicate
    with ish app [OF rank] show ?thesis by (simp add: z)
  next
    case (Partial op)
    with ish app [OF rank] show ?thesis by (simp add: z)
  next
    case (Shard d)
    with Cons.prems(4) have d: "d < r" by (simp add: z)
    show ?thesis
    proof (cases "int i < ndim m - 1")
      case True
      from i Cons.prems(6) have pos: "mesh_shape m ! i \<noteq> 0" by (simp add: list_all_length)
      from i Cons.prems(5) have ic: "i < length c" by simp
      obtain l p where l: "local_shard_size_on_dim (sh ! i ! d) (mesh_shape m ! i) (c ! i) = Inr (l, p)"
        using pos by (auto simp: local_shard_size_on_dim_def Let_def)
      have "length ((sh ! i)[d := l]) = r" using rank by simp
      from app [OF this] Shard True ish i d rank ic l show ?thesis
        by (simp add: z mesh_size_def Let_def)
    next
      case False
      with i' have "length zs = 0" unfolding ndim_def by linarith
      then have "zs = []" by simp
      with Shard False ish show ?thesis by (simp add: z)
    qed
  qed
qed

lemma gen_transform_infos_same_placements:
  assumes inv: "spec_invariants current_spec"
    and pl: "placements target_spec = placements current_spec"
    and co: "get_coordinate (mesh current_spec) = Some c"
    and nd: "ndim (mesh current_spec) \<noteq> 1"
  shows "gen_transform_infos current_spec target_spec = Inr []"
proof -
  let ?m = "mesh current_spec"
  from inv co have len: "length (placements current_spec) = length (mesh_shape ?m)"
    and pos: "list_all (\<lambda>n. 0 < n) (mesh_shape ?m)"
    and dims: "list_all (\<lambda>p. case p of Shard d \<Rightarrow> d < length (shape current_spec) | _ \<Rightarrow> True)
                 (placements current_spec)"
    and clen: "length c = length (mesh_shape ?m)"
    by (simp_all add: spec_invariants_def get_coordinate_def)
  have fst_zip: "map fst (zip (placements current_spec) (placements current_spec))
                   = placements current_spec"
    by (simp add: zip_same_conv_map comp_def)
  obtain shapes where shapes:
    "logical_shape_loop ?m c 0 (zip (placements current_spec) (placements current_spec))
       [shape current_spec] = Inr shapes"
    using logical_shape_loop_returns [of 0 "zip (placements current_spec) (placements current_spec)"
        ?m "[shape current_spec]" "length (shape current_spec)" c]
      len pos dims clen by (auto simp: fst_zip)
  obtain k where k: "num_shards current_spec = Inr k"
    using num_shards_loop_returns [of 0 "placements current_spec" ?m 1] len
    by (auto simp: num_shards_def)
  from shapes k co nd pl show ?thesis
    by (simp add: gen_transform_infos_def Let_def search_stop)
qed

text \<open>
  C10 (identity through the executor). For a member worker and two specs on one mesh
  with equal placements, the current one satisfying the spec invariants: on a mesh of
  two or more dims the planner returns the empty plan and \<^verbatim>\<open>redistribute_local_tensor\<close>
  fails its final assertion; on a one-dimensional mesh the plan is the single step
  \<open>(0, p, p)\<close> and the call returns the input tensor (waited for, if it is an
  \<^verbatim>\<open>AsyncCollectiveTensor\<close> and the call is synchronous) without calling any placement
  method. At the level of \<^verbatim>\<open>Redistribute.forward\<close> the same request succeeds on every
  mesh, since the executor is not called.
\<close>

theorem identity_through_executor:
  assumes inv: "spec_invariants current_spec"
    and me: "mesh target_spec = mesh current_spec"
    and pl: "placements target_spec = placements current_spec"
    and co: "get_coordinate (mesh current_spec) = Some c"
  shows "(2 \<le> ndim (mesh current_spec) \<longrightarrow>
            gen_transform_infos current_spec target_spec = Inr []
            \<and> redistribute_local_tensor ops x current_spec target_spec async_op is_backward
                = Inl AssertionError)
       \<and> (ndim (mesh current_spec) = 1 \<longrightarrow>
            (\<exists>p. placements current_spec = [p]
               \<and> gen_transform_infos current_spec target_spec =
                   Inr [\<lparr>mesh_dim = 0, src_dst_placements = (p, p),
                         logical_shape = shape current_spec\<rparr>]
               \<and> redistribute_local_tensor ops x current_spec target_spec async_op is_backward =
                   Inr \<lparr>out_tensor =
                          (if \<not> async_op \<and> is_async_collective_tensor ops x
                           then wait ops x else x),
                        walked = [\<lparr>mesh_dim = 0, src_dst_placements = (p, p),
                                   logical_shape = shape current_spec\<rparr>],
                        out_calls = []\<rparr>))
       \<and> Redistribute_forward ops
           \<lparr>dt_local_tensor = x, dt_spec = current_spec, requires_grad = rg\<rparr>
           (mesh target_spec) (placements target_spec) async_op
         = Inr (\<lparr>ctx_current_spec = current_spec, ctx_async_op = async_op\<rparr>,
                \<lparr>dt_local_tensor = x, dt_spec = current_spec, requires_grad = rg\<rparr>,
                [])"
proof (intro conjI impI)
  assume "2 \<le> ndim (mesh current_spec)"
  then have "ndim (mesh current_spec) \<noteq> 1" by simp
  from gen_transform_infos_same_placements [OF inv pl co this]
  show plan: "gen_transform_infos current_spec target_spec = Inr []" .
  from plan me co
  show "redistribute_local_tensor ops x current_spec target_spec async_op is_backward
          = Inl AssertionError"
    by (simp add: redistribute_local_tensor_def)
next
  assume one: "ndim (mesh current_spec) = 1"
  with inv obtain p where p: "placements current_spec = [p]"
    by (auto simp: spec_invariants_def ndim_def length_Suc_conv)
  from one p pl co
  have plan: "gen_transform_infos current_spec target_spec =
      Inr [\<lparr>mesh_dim = 0, src_dst_placements = (p, p), logical_shape = shape current_spec\<rparr>]"
    by (simp add: gen_transform_infos_def Let_def)
  from one have sz: "mesh_size (mesh current_spec) 0 = Inr (mesh_shape (mesh current_spec) ! 0)"
    by (simp add: mesh_size_def ndim_def)
  from plan me co sz
  have "redistribute_local_tensor ops x current_spec target_spec async_op is_backward =
      Inr \<lparr>out_tensor = (if \<not> async_op \<and> is_async_collective_tensor ops x then wait ops x else x),
           walked = [\<lparr>mesh_dim = 0, src_dst_placements = (p, p),
                      logical_shape = shape current_spec\<rparr>],
           out_calls = []\<rparr>"
    by (simp add: redistribute_local_tensor_def redistribute_step_def)
  with p plan
  show "\<exists>p. placements current_spec = [p]
          \<and> gen_transform_infos current_spec target_spec =
              Inr [\<lparr>mesh_dim = 0, src_dst_placements = (p, p), logical_shape = shape current_spec\<rparr>]
          \<and> redistribute_local_tensor ops x current_spec target_spec async_op is_backward =
              Inr \<lparr>out_tensor =
                     (if \<not> async_op \<and> is_async_collective_tensor ops x then wait ops x else x),
                   walked = [\<lparr>mesh_dim = 0, src_dst_placements = (p, p),
                              logical_shape = shape current_spec\<rparr>],
                   out_calls = []\<rparr>"
    by blast
next
  from pl
  show "Redistribute_forward ops
          \<lparr>dt_local_tensor = x, dt_spec = current_spec, requires_grad = rg\<rparr>
          (mesh target_spec) (placements target_spec) async_op
        = Inr (\<lparr>ctx_current_spec = current_spec, ctx_async_op = async_op\<rparr>,
               \<lparr>dt_local_tensor = x, dt_spec = current_spec, requires_grad = rg\<rparr>,
               [])"
    by (simp add: Redistribute_forward_def Let_def)
qed

theorem identity_through_executor_witness:
  "spec_invariants (spec_2x2 [Shard 0, Shard 0])
   \<and> get_coordinate (mesh (spec_2x2 [Shard 0, Shard 0])) = Some [0, 1]
   \<and> 2 \<le> ndim (mesh (spec_2x2 [Shard 0, Shard 0]))
   \<and> gen_transform_infos (spec_2x2 [Shard 0, Shard 0]) (spec_2x2 [Shard 0, Shard 0]) = Inr []
   \<and> redistribute_local_tensor sym_ops (Leaf 0) (spec_2x2 [Shard 0, Shard 0])
        (spec_2x2 [Shard 0, Shard 0]) False False = Inl AssertionError
   \<and> spec_invariants (spec_1d [Shard 0])
   \<and> get_coordinate (mesh (spec_1d [Shard 0])) = Some [2]
   \<and> ndim (mesh (spec_1d [Shard 0])) = 1
   \<and> redistribute_local_tensor sym_ops (Leaf 0) (spec_1d [Shard 0]) (spec_1d [Shard 0])
        False False
      = Inr \<lparr>out_tensor = Leaf 0,
             walked = [\<lparr>mesh_dim = 0, src_dst_placements = (Shard 0, Shard 0),
                        logical_shape = [8]\<rparr>],
             out_calls = []\<rparr>"
proof -
  have i2: "spec_invariants (spec_2x2 [Shard 0, Shard 0])"
    by (simp add: spec_invariants_def spec_2x2_def mesh_2x2_def shape_def)
  have c2: "get_coordinate (mesh (spec_2x2 [Shard 0, Shard 0])) = Some [0, 1]"
    by (simp add: spec_2x2_def mesh_2x2_def get_coordinate_def)
  have n2: "2 \<le> ndim (mesh (spec_2x2 [Shard 0, Shard 0]))"
    by (simp add: spec_2x2_def mesh_2x2_def ndim_def)
  have i1: "spec_invariants (spec_1d [Shard 0])"
    by (simp add: spec_invariants_def spec_1d_def mesh_1d_def shape_def)
  have c1: "get_coordinate (mesh (spec_1d [Shard 0])) = Some [2]"
    by (simp add: spec_1d_def mesh_1d_def get_coordinate_def)
  have n1: "ndim (mesh (spec_1d [Shard 0])) = 1"
    by (simp add: spec_1d_def mesh_1d_def ndim_def)
  have p1: "placements (spec_1d [Shard 0]) = [Shard 0]" "shape (spec_1d [Shard 0]) = [8]"
    by (simp_all add: spec_1d_def shape_def)
  have leaf: "\<not> is_async_collective_tensor sym_ops (Leaf 0)"
    by (simp add: sym_ops_def)
  from identity_through_executor [OF i2 refl refl c2, of sym_ops "Leaf 0" False False] n2
  have a: "gen_transform_infos (spec_2x2 [Shard 0, Shard 0]) (spec_2x2 [Shard 0, Shard 0]) = Inr []"
    and b: "redistribute_local_tensor sym_ops (Leaf 0) (spec_2x2 [Shard 0, Shard 0])
              (spec_2x2 [Shard 0, Shard 0]) False False = Inl AssertionError"
    by simp_all
  from identity_through_executor [OF i1 refl refl c1, of sym_ops "Leaf 0" False False] n1 p1 leaf
  have d: "redistribute_local_tensor sym_ops (Leaf 0) (spec_1d [Shard 0]) (spec_1d [Shard 0])
        False False
      = Inr \<lparr>out_tensor = Leaf 0,
             walked = [\<lparr>mesh_dim = 0, src_dst_placements = (Shard 0, Shard 0),
                        logical_shape = [8]\<rparr>],
             out_calls = []\<rparr>"
    by simp
  from i2 c2 n2 a b i1 c1 n1 d show ?thesis by blast
qed

end
